theory Spec2Isabelle
  imports Main
begin

section \<open>Badge issuers (credentials/apps/badges/issuers.py)\<close>

text \<open>
  The module issues and revokes badge credentials: it upserts a local User Credential row,
  emits a notification, calls an external badge provider and writes the provider's answer
  back into the row. The embedding threads the mutable parts of the system (the table of
  User Credentials, the notification log, the log of provider calls) through every
  operation and returns raised exceptions as values (\<open>Inl\<close>).
\<close>

subsection \<open>Data model\<close>

datatype UserCredentialStatus = AWARDED | REVOKED

text \<open>The model classes named by the issuers' class attributes.\<close>

datatype credential_type = BadgeTemplate | CredlyBadgeTemplate | AccredibleGroup

datatype user_credential_type = UserCredential | CredlyBadge | AccredibleBadge

text \<open>
  Exceptions. \<open>BadgeProviderError\<close> is the only kind the module catches; the others are
  what the object layer and Python raise (\<open>objects.get\<close>, \<open>get_or_create\<close>, an attribute
  read on \<open>None\<close>) and \<open>OtherError\<close> stands for any further failure of a collaborator.
\<close>

datatype error =
    DoesNotExist
  | MultipleObjectsReturned
  | BadgeProviderError string
  | AttributeError
  | OtherError string

text \<open>
  A credential definition (\<open>BadgeTemplate\<close>, \<open>CredlyBadgeTemplate\<close>, \<open>AccredibleGroup\<close>): the
  fields the issuers read. \<open>cred_model\<close> is the class of the instance, which is what
  \<open>ContentType.objects.get_for_model\<close> returns for it.
\<close>

record credential =
  cred_model :: credential_type
  cred_id :: int
  cred_uuid :: string
  cred_name :: string
  cred_created :: nat
  organization_uuid :: string
  api_config_id :: int

text \<open>
  A User Credential (\<open>UserCredential\<close>, \<open>CredlyBadge\<close>, \<open>AccredibleBadge\<close>): the key fields,
  the local \<open>status\<close>, the provider's \<open>state\<close> and the provider-assigned identifiers
  (\<open>external_uuid\<close> for Credly, \<open>external_id\<close> for Accredible). \<open>state\<close> and the identifiers
  are optional because the code assigns them the result of \<open>dict.get\<close>, which may be \<open>None\<close>.
\<close>

record user_credential =
  pk :: nat
  username :: string
  credential_content_type :: credential_type
  credential_id :: int
  status :: UserCredentialStatus
  state :: "string option"
  external_uuid :: "string option"
  external_id :: "int option"
  created :: nat

record user =
  user_username :: string
  user_email :: string
  first_name :: string
  last_name :: string
  full_name :: string

text \<open>Payloads sent to the providers.\<close>

record CredlyBadgeData =
  recipient_email :: string
  issued_to_first_name :: string
  issued_to_last_name :: string
  badge_template_id :: string
  issued_at :: string

record AccredibleRecipient =
  recipient_name :: string
  recipient_mail :: string

record AccredibleCredential =
  recipient :: AccredibleRecipient
  group_id :: int
  group_name :: string
  issued_on :: string
  complete :: bool

datatype provider_call =
    CredlyIssueBadge string CredlyBadgeData
  | CredlyRevokeBadge string "string option" string
  | AccredibleIssueBadge int AccredibleCredential
  | AccredibleRevokeBadge int "int option" string

datatype notification = BadgeAwarded user_credential | BadgeRevoked user_credential

text \<open>
  The store: \<open>user_credentials\<close> is the table behind
  \<open>self.issued_user_credential_type.objects\<close>, \<open>next_pk\<close> the next primary key the
  database hands out.
\<close>

record db =
  user_credentials :: "user_credential list"
  next_pk :: nat

record world =
  store :: db
  notifications :: "notification list"
  provider_calls :: "provider_call list"

type_synonym attributes = "(string \<times> string) list"

text \<open>
  The collaborators the module imports and that are not part of it, taken as parameters:
  the table of credential definitions (never written by this module), the user lookup
  (which returns a profile), the \<open>propagated\<close> property of the badge models, the state a
  freshly created row gets from its model, the two setters inherited from
  \<open>AbstractCredentialIssuer\<close> (arbitrary operations on the store, which may write and may
  raise), the four operations of the provider API clients, and the clock, date formatting
  and translation functions. A client operation takes the identifier its client was
  constructed with and sees the calls made so far, so that a provider may answer two equal
  requests differently; constructing a client has no effect of its own.
\<close>

record env =
  credentials :: "credential list"
  get_user_by_username :: "string \<Rightarrow> user"
  propagated :: "user_credential \<Rightarrow> bool"
  default_state :: "string option"
  set_credential_attributes ::
    "user_credential \<Rightarrow> attributes option \<Rightarrow> db \<Rightarrow> (error + unit) \<times> db"
  set_credential_date_override ::
    "user_credential \<Rightarrow> nat option \<Rightarrow> db \<Rightarrow> (error + unit) \<times> db"
  credly_issue_badge ::
    "provider_call list \<Rightarrow> string \<Rightarrow> CredlyBadgeData
      \<Rightarrow> error + (string \<rightharpoonup> (string \<rightharpoonup> string))"
  credly_revoke_badge ::
    "provider_call list \<Rightarrow> string \<Rightarrow> string option \<Rightarrow> string
      \<Rightarrow> error + (string \<rightharpoonup> (string \<rightharpoonup> string))"
  accredible_issue_badge ::
    "provider_call list \<Rightarrow> int \<Rightarrow> AccredibleCredential
      \<Rightarrow> error + (string \<rightharpoonup> (string \<rightharpoonup> int))"
  accredible_revoke_badge ::
    "provider_call list \<Rightarrow> int \<Rightarrow> int option \<Rightarrow> string \<Rightarrow> error + unit"
  now :: nat
  strftime :: "nat \<Rightarrow> string"
  gettext :: "string \<Rightarrow> string"

subsection \<open>Constants of the badge models\<close>

text \<open>
  Modelled from the spec: the \<open>STATES\<close> enumerations of \<open>CredlyBadge\<close> and \<open>AccredibleBadge\<close>
  (credentials/apps/badges/models.py) are not part of this module. The spec names the
  values the issuers use: the Credly state "revoked", and the fixed Accredible states
  "accepted" and "expired".
\<close>

definition CredlyBadge_STATES_revoked :: string where
  "CredlyBadge_STATES_revoked = ''revoked''"

definition AccredibleBadge_STATES_accepted :: string where
  "AccredibleBadge_STATES_accepted = ''accepted''"

definition AccredibleBadge_STATES_expired :: string where
  "AccredibleBadge_STATES_expired = ''expired''"

text \<open>\<open>REVOCATION_STATES.get(cls)\<close>: the dictionary has two keys, any other class gives \<open>None\<close>.\<close>

fun REVOCATION_STATES_get :: "user_credential_type \<Rightarrow> string option" where
  "REVOCATION_STATES_get CredlyBadge = Some CredlyBadge_STATES_revoked"
| "REVOCATION_STATES_get AccredibleBadge = Some AccredibleBadge_STATES_expired"
| "REVOCATION_STATES_get UserCredential = None"

subsection \<open>The three issuer classes\<close>

datatype issuer =
    BadgeTemplateIssuer
  | CredlyBadgeTemplateIssuer
  | AccredibleBadgeTemplateIssuer

fun issued_credential_type :: "issuer \<Rightarrow> credential_type" where
  "issued_credential_type BadgeTemplateIssuer = BadgeTemplate"
| "issued_credential_type CredlyBadgeTemplateIssuer = CredlyBadgeTemplate"
| "issued_credential_type AccredibleBadgeTemplateIssuer = AccredibleGroup"

fun issued_user_credential_type :: "issuer \<Rightarrow> user_credential_type" where
  "issued_user_credential_type BadgeTemplateIssuer = UserCredential"
| "issued_user_credential_type CredlyBadgeTemplateIssuer = CredlyBadge"
| "issued_user_credential_type AccredibleBadgeTemplateIssuer = AccredibleBadge"

subsection \<open>The object layer\<close>

text \<open>
  \<open>Model.objects.get(id=...)\<close> on the issuer's credential class: exactly one match is
  returned, none raises \<open>DoesNotExist\<close>, several raise \<open>MultipleObjectsReturned\<close>.
\<close>

definition get_credential :: "env \<Rightarrow> issuer \<Rightarrow> int \<Rightarrow> error + credential" where
  "get_credential e self cid =
     (case filter (\<lambda>c. cred_model c = issued_credential_type self \<and> cred_id c = cid)
             (credentials e) of
        [] \<Rightarrow> Inl DoesNotExist
      | [c] \<Rightarrow> Inr c
      | _ \<Rightarrow> Inl MultipleObjectsReturned)"

text \<open>The lookup key of a User Credential: username, content type and id of the definition.\<close>

definition has_key :: "string \<Rightarrow> credential_type \<Rightarrow> int \<Rightarrow> user_credential \<Rightarrow> bool" where
  "has_key uname ct cid r \<longleftrightarrow>
     username r = uname \<and> credential_content_type r = ct \<and> credential_id r = cid"

definition rows_for :: "string \<Rightarrow> credential_type \<Rightarrow> int \<Rightarrow> db \<Rightarrow> user_credential list" where
  "rows_for uname ct cid d = filter (has_key uname ct cid) (user_credentials d)"

text \<open>
  \<open>objects.create(...)\<close>: a row with the next primary key, the given key and status, and
  the model's defaults for the other fields is inserted and returned.
\<close>

definition create ::
  "env \<Rightarrow> string \<Rightarrow> credential_type \<Rightarrow> int \<Rightarrow> UserCredentialStatus \<Rightarrow> db
    \<Rightarrow> user_credential \<times> db" where
  "create e uname ct cid st d =
     (let r = \<lparr>pk = next_pk d, username = uname, credential_content_type = ct,
               credential_id = cid, status = st, state = default_state e,
               external_uuid = None, external_id = None, created = now e\<rparr>
      in (r, d\<lparr>user_credentials := user_credentials d @ [r], next_pk := Suc (next_pk d)\<rparr>))"

text \<open>
  \<open>objects.get_or_create(username=..., credential_content_type=..., credential_id=...,
  defaults={"status": status})\<close>: the single matching row is returned as it is; without a
  match a row is created with the key and the default status; several matches raise
  \<open>MultipleObjectsReturned\<close>. The flag tells whether the row was created.
\<close>

definition get_or_create ::
  "env \<Rightarrow> string \<Rightarrow> credential_type \<Rightarrow> int \<Rightarrow> UserCredentialStatus \<Rightarrow> db
    \<Rightarrow> (error + user_credential \<times> bool) \<times> db" where
  "get_or_create e uname ct cid st d =
     (case rows_for uname ct cid d of
        [] \<Rightarrow> (case create e uname ct cid st d of (r, d') \<Rightarrow> (Inr (r, True), d'))
      | [r] \<Rightarrow> (Inr (r, False), d)
      | _ \<Rightarrow> (Inl MultipleObjectsReturned, d))"

text \<open>
  \<open>instance.save()\<close>: every field of the in-memory object is written to the row with its
  primary key; a primary key the table does not hold is inserted.
\<close>

definition save :: "user_credential \<Rightarrow> db \<Rightarrow> db" where
  "save r d =
     (if pk r \<in> set (map pk (user_credentials d))
      then d\<lparr>user_credentials := map (\<lambda>x. if pk x = pk r then r else x) (user_credentials d)\<rparr>
      else d\<lparr>user_credentials := user_credentials d @ [r]\<rparr>)"

text \<open>
  \<open>@transaction.atomic\<close>: when the decorated body raises, every write it made to the
  database is rolled back and the exception propagates.
\<close>

definition transaction_atomic :: "(db \<Rightarrow> (error + 'a) \<times> db) \<Rightarrow> db \<Rightarrow> (error + 'a) \<times> db" where
  "transaction_atomic body d =
     (case body d of
        (Inl err, d') \<Rightarrow> (Inl err, d)
      | (Inr v, d') \<Rightarrow> (Inr v, d'))"

text \<open>
  \<open>user_credential.credential\<close>: the generic foreign key resolves content type and id to
  the definition, or to \<open>None\<close> when there is none.
\<close>

definition credential_of :: "env \<Rightarrow> user_credential \<Rightarrow> credential option" where
  "credential_of e r =
     List.find (\<lambda>c. cred_model c = credential_content_type r \<and> cred_id c = credential_id r)
       (credentials e)"

subsection \<open>BadgeTemplateIssuer\<close>

text \<open>
  \<open>issue_credential\<close> (the unused arguments \<open>request\<close> and \<open>lms_user_id\<close> are left out). The
  in-memory object returned is the one \<open>get_or_create\<close> gave, with \<open>status\<close> assigned when
  the guard lets it.
\<close>

definition issue_credential ::
  "env \<Rightarrow> issuer \<Rightarrow> credential \<Rightarrow> string \<Rightarrow> UserCredentialStatus \<Rightarrow> attributes option
    \<Rightarrow> nat option \<Rightarrow> db \<Rightarrow> (error + user_credential) \<times> db" where
  "issue_credential e self cred uname st attrs date_override =
     transaction_atomic (\<lambda>d.
       case get_or_create e uname (cred_model cred) (cred_id cred) st d of
         (Inl err, d1) \<Rightarrow> (Inl err, d1)
       | (Inr (uc0, _), d1) \<Rightarrow>
           (let uc = (if \<not> state uc0 = REVOCATION_STATES_get (issued_user_credential_type self)
                      then uc0\<lparr>status := st\<rparr> else uc0);
                d2 = (if \<not> state uc0 = REVOCATION_STATES_get (issued_user_credential_type self)
                      then save uc d1 else d1)
            in case set_credential_attributes e uc attrs d2 of
                 (Inl err, d3) \<Rightarrow> (Inl err, d3)
               | (Inr _, d3) \<Rightarrow>
                   (case set_credential_date_override e uc date_override d3 of
                      (Inl err, d4) \<Rightarrow> (Inl err, d4)
                    | (Inr _, d4) \<Rightarrow> (Inr uc, d4))))"

definition BadgeTemplateIssuer_award ::
  "env \<Rightarrow> issuer \<Rightarrow> string \<Rightarrow> int \<Rightarrow> world \<Rightarrow> (error + user_credential) \<times> world" where
  "BadgeTemplateIssuer_award e self uname cid w =
     (case get_credential e self cid of
        Inl err \<Rightarrow> (Inl err, w)
      | Inr cred \<Rightarrow>
          (case issue_credential e self cred uname AWARDED None None (store w) of
             (Inl err, d) \<Rightarrow> (Inl err, w\<lparr>store := d\<rparr>)
           | (Inr uc, d) \<Rightarrow>
               (Inr uc, w\<lparr>store := d, notifications := notifications w @ [BadgeAwarded uc]\<rparr>)))"

definition BadgeTemplateIssuer_revoke ::
  "env \<Rightarrow> issuer \<Rightarrow> int \<Rightarrow> string \<Rightarrow> world \<Rightarrow> (error + user_credential) \<times> world" where
  "BadgeTemplateIssuer_revoke e self cid uname w =
     (case get_credential e self cid of
        Inl err \<Rightarrow> (Inl err, w)
      | Inr cred \<Rightarrow>
          (case issue_credential e self cred uname REVOKED None None (store w) of
             (Inl err, d) \<Rightarrow> (Inl err, w\<lparr>store := d\<rparr>)
           | (Inr uc, d) \<Rightarrow>
               (Inr uc, w\<lparr>store := d, notifications := notifications w @ [BadgeRevoked uc]\<rparr>)))"

subsection \<open>CredlyBadgeTemplateIssuer\<close>

text \<open>
  The payload \<open>CredlyBadgeData(...)\<close>: \<open>x or y\<close> on strings takes \<open>y\<close> when \<open>x\<close> is empty.
\<close>

definition credly_badge_data_for :: "env \<Rightarrow> user \<Rightarrow> credential \<Rightarrow> CredlyBadgeData" where
  "credly_badge_data_for e usr badge_template =
     \<lparr>recipient_email = user_email usr,
      issued_to_first_name =
        (if first_name usr \<noteq> [] then first_name usr else user_username usr),
      issued_to_last_name =
        (if last_name usr \<noteq> [] then last_name usr else user_username usr),
      badge_template_id = cred_uuid badge_template,
      issued_at = strftime e (cred_created badge_template)\<rparr>"

text \<open>
  The provider steps mutate the object they are given and return nothing; the model
  returns the mutated object, which is the object the caller goes on to return. The
  \<open>except BadgeProviderError\<close> clause marks the object, saves it and re-raises; any other
  exception passes the handler by. \<open>response.get("data")\<close> may be \<open>None\<close>, on which the
  following \<open>.get\<close> raises. Every call of a client operation is logged in \<open>provider_calls\<close>.
\<close>

definition issue_credly_badge ::
  "env \<Rightarrow> user_credential \<Rightarrow> world \<Rightarrow> (error + user_credential) \<times> world" where
  "issue_credly_badge e uc w =
     (let usr = get_user_by_username e (username uc)
      in case credential_of e uc of
           None \<Rightarrow> (Inl AttributeError, w)
         | Some badge_template \<Rightarrow>
             (let credly_badge_data = credly_badge_data_for e usr badge_template;
                  org = organization_uuid badge_template;
                  w1 = w\<lparr>provider_calls :=
                          provider_calls w @ [CredlyIssueBadge org credly_badge_data]\<rparr>
              in case credly_issue_badge e (provider_calls w) org credly_badge_data of
                   Inl err \<Rightarrow>
                     (case err of
                        BadgeProviderError m \<Rightarrow>
                          (Inl err, w1\<lparr>store := save (uc\<lparr>state := Some ''error''\<rparr>) (store w1)\<rparr>)
                      | _ \<Rightarrow> (Inl err, w1))
                 | Inr response \<Rightarrow>
                     (case response ''data'' of
                        None \<Rightarrow> (Inl AttributeError, w1)
                      | Some dat \<Rightarrow>
                          (let uc' = uc\<lparr>external_uuid := dat ''id'', state := dat ''state''\<rparr>
                           in (Inr uc', w1\<lparr>store := save uc' (store w1)\<rparr>)))))"

definition revoke_credly_badge ::
  "env \<Rightarrow> int \<Rightarrow> user_credential \<Rightarrow> world \<Rightarrow> (error + user_credential) \<times> world" where
  "revoke_credly_badge e cid uc w =
     (case get_credential e CredlyBadgeTemplateIssuer cid of
        Inl err \<Rightarrow> (Inl err, w)
      | Inr cred \<Rightarrow>
          (let org = organization_uuid cred;
               reason = gettext e ''Open edX internal user credential was revoked'';
               w1 = w\<lparr>provider_calls :=
                       provider_calls w @ [CredlyRevokeBadge org (external_uuid uc) reason]\<rparr>
           in case credly_revoke_badge e (provider_calls w) org (external_uuid uc) reason of
                Inl err \<Rightarrow>
                  (case err of
                     BadgeProviderError m \<Rightarrow>
                       (Inl err, w1\<lparr>store := save (uc\<lparr>state := Some ''error''\<rparr>) (store w1)\<rparr>)
                   | _ \<Rightarrow> (Inl err, w1))
              | Inr response \<Rightarrow>
                  (case response ''data'' of
                     None \<Rightarrow> (Inl AttributeError, w1)
                   | Some dat \<Rightarrow>
                       (let uc' = uc\<lparr>state := dat ''state''\<rparr>
                        in (Inr uc', w1\<lparr>store := save uc' (store w1)\<rparr>)))))"

definition CredlyBadgeTemplateIssuer_award ::
  "env \<Rightarrow> string \<Rightarrow> int \<Rightarrow> world \<Rightarrow> (error + user_credential) \<times> world" where
  "CredlyBadgeTemplateIssuer_award e uname cid w =
     (case BadgeTemplateIssuer_award e CredlyBadgeTemplateIssuer uname cid w of
        (Inl err, w1) \<Rightarrow> (Inl err, w1)
      | (Inr credly_badge, w1) \<Rightarrow>
          (if \<not> propagated e credly_badge
           then issue_credly_badge e credly_badge w1
           else (Inr credly_badge, w1)))"

definition CredlyBadgeTemplateIssuer_revoke ::
  "env \<Rightarrow> int \<Rightarrow> string \<Rightarrow> world \<Rightarrow> (error + user_credential) \<times> world" where
  "CredlyBadgeTemplateIssuer_revoke e cid uname w =
     (case BadgeTemplateIssuer_revoke e CredlyBadgeTemplateIssuer cid uname w of
        (Inl err, w1) \<Rightarrow> (Inl err, w1)
      | (Inr uc, w1) \<Rightarrow>
          (if propagated e uc
           then revoke_credly_badge e cid uc w1
           else (Inr uc, w1)))"

subsection \<open>AccredibleBadgeTemplateIssuer\<close>

text \<open>The payload \<open>AccredibleBadgeData(credential=AccredibleCredential(...))\<close>.\<close>

definition accredible_badge_data_for ::
  "env \<Rightarrow> user \<Rightarrow> credential \<Rightarrow> user_credential \<Rightarrow> AccredibleCredential" where
  "accredible_badge_data_for e usr grp uc =
     \<lparr>recipient =
        \<lparr>recipient_name = (if full_name usr \<noteq> [] then full_name usr else user_username usr),
         recipient_mail = user_email usr\<rparr>,
      group_id = cred_id grp,
      group_name = cred_name grp,
      issued_on = strftime e (created uc),
      complete = True\<rparr>"

definition issue_accredible_badge ::
  "env \<Rightarrow> user_credential \<Rightarrow> world \<Rightarrow> (error + user_credential) \<times> world" where
  "issue_accredible_badge e uc w =
     (let usr = get_user_by_username e (username uc)
      in case credential_of e uc of
           None \<Rightarrow> (Inl AttributeError, w)
         | Some grp \<Rightarrow>
             (let accredible_badge_data = accredible_badge_data_for e usr grp uc;
                  cfg = api_config_id grp;
                  w1 = w\<lparr>provider_calls :=
                          provider_calls w @ [AccredibleIssueBadge cfg accredible_badge_data]\<rparr>
              in case accredible_issue_badge e (provider_calls w) cfg accredible_badge_data of
                   Inl err \<Rightarrow>
                     (case err of
                        BadgeProviderError m \<Rightarrow>
                          (Inl err, w1\<lparr>store := save (uc\<lparr>state := Some ''error''\<rparr>) (store w1)\<rparr>)
                      | _ \<Rightarrow> (Inl err, w1))
                 | Inr response \<Rightarrow>
                     (case response ''credential'' of
                        None \<Rightarrow> (Inl AttributeError, w1)
                      | Some c \<Rightarrow>
                          (let uc' = uc\<lparr>external_id := c ''id'',
                                        state := Some AccredibleBadge_STATES_accepted\<rparr>
                           in (Inr uc', w1\<lparr>store := save uc' (store w1)\<rparr>)))))"

definition revoke_accredible_badge ::
  "env \<Rightarrow> int \<Rightarrow> user_credential \<Rightarrow> world \<Rightarrow> (error + user_credential) \<times> world" where
  "revoke_accredible_badge e cid uc w =
     (case get_credential e AccredibleBadgeTemplateIssuer cid of
        Inl err \<Rightarrow> (Inl err, w)
      | Inr cred \<Rightarrow>
          (let cfg = api_config_id cred;
               expired_on = strftime e (now e);
               w1 = w\<lparr>provider_calls :=
                       provider_calls w @ [AccredibleRevokeBadge cfg (external_id uc) expired_on]\<rparr>
           in case accredible_revoke_badge e (provider_calls w) cfg (external_id uc) expired_on of
                Inl err \<Rightarrow>
                  (case err of
                     BadgeProviderError m \<Rightarrow>
                       (Inl err, w1\<lparr>store := save (uc\<lparr>state := Some ''error''\<rparr>) (store w1)\<rparr>)
                   | _ \<Rightarrow> (Inl err, w1))
              | Inr _ \<Rightarrow>
                  (let uc' = uc\<lparr>state := Some AccredibleBadge_STATES_expired\<rparr>
                   in (Inr uc', w1\<lparr>store := save uc' (store w1)\<rparr>))))"

definition AccredibleBadgeTemplateIssuer_award ::
  "env \<Rightarrow> string \<Rightarrow> int \<Rightarrow> world \<Rightarrow> (error + user_credential) \<times> world" where
  "AccredibleBadgeTemplateIssuer_award e uname cid w =
     (case BadgeTemplateIssuer_award e AccredibleBadgeTemplateIssuer uname cid w of
        (Inl err, w1) \<Rightarrow> (Inl err, w1)
      | (Inr accredible_badge, w1) \<Rightarrow>
          (if \<not> propagated e accredible_badge
           then issue_accredible_badge e accredible_badge w1
           else (Inr accredible_badge, w1)))"

definition AccredibleBadgeTemplateIssuer_revoke ::
  "env \<Rightarrow> int \<Rightarrow> string \<Rightarrow> world \<Rightarrow> (error + user_credential) \<times> world" where
  "AccredibleBadgeTemplateIssuer_revoke e cid uname w =
     (case BadgeTemplateIssuer_revoke e AccredibleBadgeTemplateIssuer cid uname w of
        (Inl err, w1) \<Rightarrow> (Inl err, w1)
      | (Inr uc, w1) \<Rightarrow>
          (if propagated e uc
           then revoke_accredible_badge e cid uc w1
           else (Inr uc, w1)))"

subsection \<open>Method resolution\<close>

text \<open>
  \<open>issuer.award(...)\<close> and \<open>issuer.revoke(...)\<close> run the method of the issuer's class: the
  base class has its own, each provider class overrides both.
\<close>

fun award :: "env \<Rightarrow> issuer \<Rightarrow> string \<Rightarrow> int \<Rightarrow> world \<Rightarrow> (error + user_credential) \<times> world" where
  "award e BadgeTemplateIssuer uname cid w =
     BadgeTemplateIssuer_award e BadgeTemplateIssuer uname cid w"
| "award e CredlyBadgeTemplateIssuer uname cid w = CredlyBadgeTemplateIssuer_award e uname cid w"
| "award e AccredibleBadgeTemplateIssuer uname cid w =
     AccredibleBadgeTemplateIssuer_award e uname cid w"

fun revoke :: "env \<Rightarrow> issuer \<Rightarrow> int \<Rightarrow> string \<Rightarrow> world \<Rightarrow> (error + user_credential) \<times> world" where
  "revoke e BadgeTemplateIssuer cid uname w =
     BadgeTemplateIssuer_revoke e BadgeTemplateIssuer cid uname w"
| "revoke e CredlyBadgeTemplateIssuer cid uname w = CredlyBadgeTemplateIssuer_revoke e cid uname w"
| "revoke e AccredibleBadgeTemplateIssuer cid uname w =
     AccredibleBadgeTemplateIssuer_revoke e cid uname w"

text \<open>The external issue step of a provider class (the base class has none).\<close>

fun issue_external ::
  "env \<Rightarrow> issuer \<Rightarrow> user_credential \<Rightarrow> world \<Rightarrow> (error + user_credential) \<times> world" where
  "issue_external e BadgeTemplateIssuer uc w = (Inr uc, w)"
| "issue_external e CredlyBadgeTemplateIssuer uc w = issue_credly_badge e uc w"
| "issue_external e AccredibleBadgeTemplateIssuer uc w = issue_accredible_badge e uc w"

text \<open>The external revoke step of a provider class (the base class has none).\<close>

fun revoke_external ::
  "env \<Rightarrow> issuer \<Rightarrow> int \<Rightarrow> user_credential \<Rightarrow> world \<Rightarrow> (error + user_credential) \<times> world" where
  "revoke_external e BadgeTemplateIssuer cid uc w = (Inr uc, w)"
| "revoke_external e CredlyBadgeTemplateIssuer cid uc w = revoke_credly_badge e cid uc w"
| "revoke_external e AccredibleBadgeTemplateIssuer cid uc w = revoke_accredible_badge e cid uc w"

fun is_issue_call :: "provider_call \<Rightarrow> bool" where
  "is_issue_call (CredlyIssueBadge _ _) = True"
| "is_issue_call (AccredibleIssueBadge _ _) = True"
| "is_issue_call _ = False"

fun is_revoke_call :: "provider_call \<Rightarrow> bool" where
  "is_revoke_call (CredlyRevokeBadge _ _ _) = True"
| "is_revoke_call (AccredibleRevokeBadge _ _ _) = True"
| "is_revoke_call _ = False"

subsection \<open>Assumptions on the surroundings\<close>

text \<open>
  The inherited setters write tables this development does not model; where a property
  needs them to return, they are assumed to succeed and to leave the User Credential table
  as it is.
\<close>

definition setters_succeed :: "env \<Rightarrow> bool" where
  "setters_succeed e \<longleftrightarrow>
     (\<forall>uc a d. set_credential_attributes e uc a d = (Inr (), d)) \<and>
     (\<forall>uc t d. set_credential_date_override e uc t d = (Inr (), d))"

text \<open>The database keeps primary keys unique and below the next key it hands out.\<close>

definition wf_db :: "db \<Rightarrow> bool" where
  "wf_db d \<longleftrightarrow>
     distinct (map pk (user_credentials d)) \<and>
     list_all (\<lambda>x. pk x < next_pk d) (user_credentials d)"

subsection \<open>Example surroundings\<close>

text \<open>
  A concrete set of collaborators for the worked examples: one definition of each class
  with id 1, providers that answer as in the scenarios of the specification, setters that
  do nothing, and a \<open>propagated\<close> property that holds once the row carries an identifier
  assigned by the provider.
\<close>

definition example_user :: "string \<Rightarrow> user" where
  "example_user uname =
     \<lparr>user_username = uname, user_email = uname @ ''@example.com'',
      first_name = [], last_name = [], full_name = []\<rparr>"

definition example_credential :: "credential_type \<Rightarrow> credential" where
  "example_credential ct =
     \<lparr>cred_model = ct, cred_id = 1, cred_uuid = ''tpl-1'', cred_name = ''Badge'',
      cred_created = 0, organization_uuid = ''org-1'', api_config_id = 5\<rparr>"

definition example_env :: env where
  "example_env =
     \<lparr>credentials =
        [example_credential BadgeTemplate, example_credential CredlyBadgeTemplate,
         example_credential AccredibleGroup],
      get_user_by_username = example_user,
      propagated = (\<lambda>uc. external_uuid uc \<noteq> None \<or> external_id uc \<noteq> None),
      default_state = Some ''created'',
      set_credential_attributes = (\<lambda>uc a d. (Inr (), d)),
      set_credential_date_override = (\<lambda>uc t d. (Inr (), d)),
      credly_issue_badge =
        (\<lambda>calls org dat. Inr [''data'' \<mapsto> [''id'' \<mapsto> ''ext-1'', ''state'' \<mapsto> ''accepted'']]),
      credly_revoke_badge =
        (\<lambda>calls org ext reason. Inr [''data'' \<mapsto> [''state'' \<mapsto> ''revoked'']]),
      accredible_issue_badge = (\<lambda>calls cfg dat. Inr [''credential'' \<mapsto> [''id'' \<mapsto> 7]]),
      accredible_revoke_badge = (\<lambda>calls cfg ext dat. Inr ()),
      now = 0,
      strftime = (\<lambda>t. ''1970-01-01 00:00:00 +0000''),
      gettext = (\<lambda>msg. msg)\<rparr>"

definition empty_db :: db where
  "empty_db = \<lparr>user_credentials = [], next_pk = 1\<rparr>"

definition empty_world :: world where
  "empty_world = \<lparr>store = empty_db, notifications = [], provider_calls = []\<rparr>"

text \<open>A row for "alice" and the definition with id 1, and a table holding just one row.\<close>

definition example_row ::
  "credential_type \<Rightarrow> UserCredentialStatus \<Rightarrow> string option \<Rightarrow> string option \<Rightarrow> user_credential" where
  "example_row ct st s ext =
     \<lparr>pk = 1, username = ''alice'', credential_content_type = ct, credential_id = 1,
      status = st, state = s, external_uuid = ext, external_id = None, created = 0\<rparr>"

definition db_with :: "user_credential \<Rightarrow> db" where
  "db_with r = \<lparr>user_credentials = [r], next_pk = Suc (pk r)\<rparr>"

definition world_with :: "user_credential \<Rightarrow> world" where
  "world_with r = \<lparr>store = db_with r, notifications = [], provider_calls = []\<rparr>"

text \<open>
  A second set of collaborators: \<open>propagated\<close> holds while the row carries the provider's
  identifier and is in a state the provider reports for an issued badge, and the Credly
  provider answers the first call only and is unavailable afterwards.
\<close>

definition reported_issued :: "user_credential \<Rightarrow> bool" where
  "reported_issued uc \<longleftrightarrow>
     external_uuid uc \<noteq> None \<and>
     state uc \<in> {Some ''pending'', Some ''accepted'', Some ''rejected''}"

definition flaky_env :: env where
  "flaky_env =
     example_env
       \<lparr>propagated := reported_issued,
        credly_issue_badge :=
          (\<lambda>calls org dat.
             if calls = [] then Inr [''data'' \<mapsto> [''id'' \<mapsto> ''ext-1'', ''state'' \<mapsto> ''accepted'']]
             else Inl (BadgeProviderError ''unavailable''))\<rparr>"

text \<open>
  A third set of collaborators, for the Accredible issuer: \<open>propagated\<close> holds while the row
  carries the provider's identifier and is in the state "accepted", and the provider
  answers the first call only and is unavailable afterwards.
\<close>

definition expiring_env :: env where
  "expiring_env =
     example_env
       \<lparr>propagated := (\<lambda>uc. external_id uc \<noteq> None \<and> state uc = Some ''accepted''),
        accredible_issue_badge :=
          (\<lambda>calls cfg dat.
             if calls = [] then Inr [''credential'' \<mapsto> [''id'' \<mapsto> 7]]
             else Inl (BadgeProviderError ''unavailable''))\<rparr>"

text \<open>Two objects stand for the same row under the same lookup key.\<close>

definition same_record :: "user_credential \<Rightarrow> user_credential \<Rightarrow> bool" where
  "same_record r r' \<longleftrightarrow>
     pk r' = pk r \<and> username r' = username r \<and>
     credential_content_type r' = credential_content_type r \<and>
     credential_id r' = credential_id r"

section \<open>Properties\<close>

subsection \<open>Saving and creating rows\<close>

lemma replace_by_pk:
  assumes "distinct (map pk xs)" "r \<in> set xs" "pk r' = pk r"
  shows "map (\<lambda>x. if pk x = pk r' then r' else x) xs = map (\<lambda>x. if x = r then r' else x) xs"
proof (rule map_cong)
  fix x assume "x \<in> set xs"
  moreover have "inj_on pk (set xs)" using assms(1) by (simp add: distinct_map)
  ultimately have "pk x = pk r \<longleftrightarrow> x = r" using assms(2) by (auto dest: inj_onD)
  then show "(if pk x = pk r' then r' else x) = (if x = r then r' else x)"
    using assms(3) by simp
qed simp

lemma save_replaces:
  assumes "wf_db d" "r \<in> set (user_credentials d)" "pk r' = pk r"
  shows "save r' d = d\<lparr>user_credentials := map (\<lambda>x. if x = r then r' else x) (user_credentials d)\<rparr>"
proof -
  have "pk r' \<in> set (map pk (user_credentials d))" using assms(2,3) by force
  moreover have "distinct (map pk (user_credentials d))" using assms(1) by (simp add: wf_db_def)
  ultimately show ?thesis
    unfolding save_def using replace_by_pk [OF _ assms(2,3)] by simp
qed

lemma save_present:
  assumes "wf_db d" "r \<in> set (user_credentials d)"
  shows "save r d = d"
proof -
  have "map (\<lambda>x. if x = r then r else x) (user_credentials d) = user_credentials d"
    by (rule map_idI) simp
  then show ?thesis using save_replaces [OF assms refl] by simp
qed

lemma filter_replace:
  "P r' = P r \<Longrightarrow>
   filter P (map (\<lambda>x. if x = r then r' else x) xs) = map (\<lambda>x. if x = r then r' else x) (filter P xs)"
  by (induction xs) auto

lemma rows_for_save:
  assumes "wf_db d" "r \<in> set (user_credentials d)" "pk r' = pk r"
    and "has_key u ct cid r' = has_key u ct cid r"
  shows "rows_for u ct cid (save r' d) = map (\<lambda>x. if x = r then r' else x) (rows_for u ct cid d)"
  using filter_replace [of "has_key u ct cid" r' r "user_credentials d"] assms(4)
  by (simp add: save_replaces [OF assms(1-3)] rows_for_def)

lemma wf_db_save:
  assumes "wf_db d" "r \<in> set (user_credentials d)" "pk r' = pk r"
  shows "wf_db (save r' d)"
proof -
  let ?ys = "map (\<lambda>x. if x = r then r' else x) (user_credentials d)"
  have pks: "map pk ?ys = map pk (user_credentials d)"
    using assms(3) by (induction "user_credentials d") auto
  have "distinct (map pk ?ys)" using assms(1) unfolding pks by (simp add: wf_db_def)
  moreover have "list_all (\<lambda>x. pk x < next_pk d) ?ys"
    using assms by (auto simp: wf_db_def list_all_iff)
  ultimately show ?thesis
    by (simp add: save_replaces [OF assms] wf_db_def)
qed


lemma wf_db_create:
  assumes "wf_db d"
  shows "wf_db (snd (create e u ct cid st d))"
  using assms by (auto simp: wf_db_def create_def Let_def list_all_iff less_Suc_eq)

lemma create_row_in:
  "fst (create e u ct cid st d) \<in> set (user_credentials (snd (create e u ct cid st d)))"
  by (simp add: create_def Let_def)

lemma rows_for_create:
  "rows_for u ct cid d = [] \<Longrightarrow>
   rows_for u ct cid (snd (create e u ct cid st d)) = [fst (create e u ct cid st d)]"
  by (simp add: rows_for_def create_def Let_def has_key_def)

lemma create_fields:
  "status (fst (create e u ct cid st d)) = st"
  "state (fst (create e u ct cid st d)) = default_state e"
  "has_key u ct cid (fst (create e u ct cid st d))"
  "pk (fst (create e u ct cid st d)) = next_pk d"
  by (simp_all add: create_def Let_def has_key_def)

lemma create_status_idem:
  "(fst (create e u ct cid st d))\<lparr>status := st\<rparr> = fst (create e u ct cid st d)"
  by (simp add: create_def Let_def)

lemma issue_credential_new:
  assumes "setters_succeed e" "wf_db d" "rows_for u (cred_model c) (cred_id c) d = []"
  shows "issue_credential e self c u st a t d =
           (Inr (fst (create e u (cred_model c) (cred_id c) st d)),
            snd (create e u (cred_model c) (cred_id c) st d))"
proof -
  let ?r = "fst (create e u (cred_model c) (cred_id c) st d)"
  let ?d = "snd (create e u (cred_model c) (cred_id c) st d)"
  have sv: "save ?r ?d = ?d"
    by (rule save_present [OF wf_db_create [OF assms(2)] create_row_in])
  show ?thesis
    using assms(1,3) sv
    by (simp add: issue_credential_def transaction_atomic_def get_or_create_def
        setters_succeed_def create_status_idem case_prod_beta Let_def)
qed

lemma issue_credential_existing:
  assumes "setters_succeed e" "rows_for u (cred_model c) (cred_id c) d = [r]"
  shows "issue_credential e self c u st a t d =
           (if state r = REVOCATION_STATES_get (issued_user_credential_type self)
            then (Inr r, d)
            else (Inr (r\<lparr>status := st\<rparr>), save (r\<lparr>status := st\<rparr>) d))"
  using assms
  by (simp add: issue_credential_def transaction_atomic_def get_or_create_def
      setters_succeed_def Let_def)


lemma save_holds_row: "r \<in> set (user_credentials (save r d))"
  by (auto simp: save_def)

lemma setters_succeed_example: "setters_succeed example_env"
  by (simp add: setters_succeed_def example_env_def)

lemma wf_db_empty: "wf_db empty_db"
  by (simp add: wf_db_def empty_db_def)

subsection \<open>Looking up definitions and rows\<close>

lemma filter_single_find: "filter P xs = [c] \<Longrightarrow> List.find P xs = Some c"
  by (induction xs) (auto split: if_splits)

lemma get_credential_Inr:
  assumes "get_credential e self cid = Inr c"
  shows "filter (\<lambda>x. cred_model x = issued_credential_type self \<and> cred_id x = cid)
           (credentials e) = [c]"
  using assms by (auto simp: get_credential_def split: list.splits)

lemma get_credential_key:
  assumes "get_credential e self cid = Inr c"
  shows "cred_model c = issued_credential_type self" "cred_id c = cid"
proof -
  have "c \<in> set (filter (\<lambda>x. cred_model x = issued_credential_type self \<and> cred_id x = cid)
           (credentials e))"
    using get_credential_Inr [OF assms] by simp
  then show "cred_model c = issued_credential_type self" "cred_id c = cid" by simp_all
qed

lemma credential_of_resolves:
  assumes "get_credential e self cid = Inr c" "has_key u (issued_credential_type self) cid uc"
  shows "credential_of e uc = Some c"
  using assms(2) filter_single_find [OF get_credential_Inr [OF assms(1)]]
  by (simp add: credential_of_def has_key_def)

lemma rows_for_member:
  "rows_for u ct cid d = [r] \<Longrightarrow> r \<in> set (user_credentials d) \<and> has_key u ct cid r"
proof -
  assume "rows_for u ct cid d = [r]"
  then have "r \<in> set (rows_for u ct cid d)" by simp
  then show ?thesis by (simp add: rows_for_def)
qed

subsection \<open>What issue_credential leaves behind\<close>

lemma issue_credential_multiple:
  assumes "rows_for u (cred_model c) (cred_id c) d = x # y # zs"
  shows "issue_credential e self c u st a t d = (Inl MultipleObjectsReturned, d)"
  using assms by (simp add: issue_credential_def transaction_atomic_def get_or_create_def)

lemma save_single_row:
  assumes "wf_db d" "rows_for u ct cid d = [r]" "same_record r r'"
  shows "wf_db (save r' d)" "rows_for u ct cid (save r' d) = [r']"
    "length (user_credentials (save r' d)) = length (user_credentials d)"
proof -
  from rows_for_member [OF assms(2)] have r_in: "r \<in> set (user_credentials d)"
    and key: "has_key u ct cid r" by simp_all
  have pk: "pk r' = pk r" using assms(3) by (simp add: same_record_def)
  have key': "has_key u ct cid r' = has_key u ct cid r"
    using assms(3) by (simp add: same_record_def has_key_def)
  show "wf_db (save r' d)" by (rule wf_db_save [OF assms(1) r_in pk])
  show "rows_for u ct cid (save r' d) = [r']"
    using rows_for_save [OF assms(1) r_in pk key'] assms(2) by simp
  show "length (user_credentials (save r' d)) = length (user_credentials d)"
    by (simp add: save_replaces [OF assms(1) r_in pk])
qed

lemma issue_credential_cases:
  assumes "setters_succeed e" "wf_db d"
    and "issue_credential e self c u st a t d = (Inr uc, d')"
  shows "(rows_for u (cred_model c) (cred_id c) d = [] \<and>
            uc = fst (create e u (cred_model c) (cred_id c) st d) \<and>
            d' = snd (create e u (cred_model c) (cred_id c) st d)) \<or>
         (rows_for u (cred_model c) (cred_id c) d = [uc] \<and>
            state uc = REVOCATION_STATES_get (issued_user_credential_type self) \<and> d' = d) \<or>
         (\<exists>r. rows_for u (cred_model c) (cred_id c) d = [r] \<and>
            state r \<noteq> REVOCATION_STATES_get (issued_user_credential_type self) \<and>
            uc = r\<lparr>status := st\<rparr> \<and> d' = save uc d)"
proof (cases "rows_for u (cred_model c) (cred_id c) d")
  case Nil
  then show ?thesis using issue_credential_new [OF assms(1,2) Nil, of self st a t] assms(3) by simp
next
  case (Cons x xs)
  show ?thesis
  proof (cases xs)
    case Nil
    with Cons have one: "rows_for u (cred_model c) (cred_id c) d = [x]" by simp
    show ?thesis
      using issue_credential_existing [OF assms(1) one, of self st a t] assms(3) one
      by (auto split: if_splits)
  next
    case (Cons y zs)
    with \<open>rows_for u (cred_model c) (cred_id c) d = x # xs\<close>
    have "rows_for u (cred_model c) (cred_id c) d = x # y # zs" by simp
    from issue_credential_multiple [OF this, of e self st a t] assms(3)
    show ?thesis by simp
  qed
qed

lemma issue_credential_post:
  assumes "setters_succeed e" "wf_db d"
    and "issue_credential e self c u st a t d = (Inr uc, d')"
  shows "wf_db d'" "rows_for u (cred_model c) (cred_id c) d' = [uc]"
    "status uc = st \<or>
       (rows_for u (cred_model c) (cred_id c) d = [uc] \<and>
        state uc = REVOCATION_STATES_get (issued_user_credential_type self) \<and> d' = d)"
    "length (user_credentials d') =
       (if rows_for u (cred_model c) (cred_id c) d = [] then Suc (length (user_credentials d))
        else length (user_credentials d))"
proof -
  let ?rows = "rows_for u (cred_model c) (cred_id c)"
  consider
    (new) "?rows d = []" "uc = fst (create e u (cred_model c) (cred_id c) st d)"
          "d' = snd (create e u (cred_model c) (cred_id c) st d)"
  | (kept) "?rows d = [uc]"
          "state uc = REVOCATION_STATES_get (issued_user_credential_type self)" "d' = d"
  | (written) r where "?rows d = [r]" "uc = r\<lparr>status := st\<rparr>" "d' = save uc d"
    using issue_credential_cases [OF assms] by blast
  then have "wf_db d' \<and> ?rows d' = [uc] \<and>
     (status uc = st \<or>
       (?rows d = [uc] \<and>
        state uc = REVOCATION_STATES_get (issued_user_credential_type self) \<and> d' = d)) \<and>
     length (user_credentials d') =
       (if ?rows d = [] then Suc (length (user_credentials d))
        else length (user_credentials d))"
  proof cases
    case new
    then show ?thesis
      using wf_db_create [OF assms(2)] rows_for_create [OF new(1)] create_fields(1)
      by (simp add: create_def Let_def)
  next
    case kept
    then show ?thesis using assms(2) by simp
  next
    case written
    have sr: "same_record r uc" using written(2) by (simp add: same_record_def)
    show ?thesis
      using save_single_row [OF assms(2) written(1) sr] written by simp
  qed
  then show "wf_db d'" "?rows d' = [uc]"
    "status uc = st \<or>
       (?rows d = [uc] \<and>
        state uc = REVOCATION_STATES_get (issued_user_credential_type self) \<and> d' = d)"
    "length (user_credentials d') =
       (if ?rows d = [] then Suc (length (user_credentials d))
        else length (user_credentials d))"
    by simp_all
qed

lemma issue_credential_key:
  assumes "issue_credential e self c u st a t d = (Inr uc, d')"
  shows "has_key u (cred_model c) (cred_id c) uc"
proof (cases "rows_for u (cred_model c) (cred_id c) d")
  case Nil
  then show ?thesis using assms
    by (auto simp: issue_credential_def transaction_atomic_def get_or_create_def create_def
        Let_def has_key_def split: prod.splits sum.splits if_splits)
next
  case (Cons x xs)
  show ?thesis
  proof (cases xs)
    case Nil
    with Cons have one: "rows_for u (cred_model c) (cred_id c) d = [x]" by simp
    from rows_for_member [OF one] have "has_key u (cred_model c) (cred_id c) x" by simp
    then show ?thesis using assms one
      by (auto simp: issue_credential_def transaction_atomic_def get_or_create_def
        Let_def has_key_def split: prod.splits sum.splits if_splits)
  next
    case (Cons y zs)
    with \<open>rows_for u (cred_model c) (cred_id c) d = x # xs\<close> show ?thesis using assms
      by (simp add: issue_credential_def transaction_atomic_def get_or_create_def)
  qed
qed

lemma base_award_Inr:
  assumes "BadgeTemplateIssuer_award e self u cid w = (Inr uc, w1)"
  shows "\<exists>c. get_credential e self cid = Inr c \<and>
           issue_credential e self c u AWARDED None None (store w) = (Inr uc, store w1) \<and>
           w1 = w\<lparr>store := store w1, notifications := notifications w @ [BadgeAwarded uc]\<rparr>"
  using assms
  by (auto simp: BadgeTemplateIssuer_award_def split: sum.splits prod.splits)

lemma base_revoke_Inr:
  assumes "BadgeTemplateIssuer_revoke e self cid u w = (Inr uc, w1)"
  shows "\<exists>c. get_credential e self cid = Inr c \<and>
           issue_credential e self c u REVOKED None None (store w) = (Inr uc, store w1) \<and>
           w1 = w\<lparr>store := store w1, notifications := notifications w @ [BadgeRevoked uc]\<rparr>"
  using assms
  by (auto simp: BadgeTemplateIssuer_revoke_def split: sum.splits prod.splits)

subsection \<open>The provider steps write at most the row they were given\<close>

lemma same_record_update [simp]:
  "same_record uc (uc\<lparr>state := s\<rparr>)"
  "same_record uc (uc\<lparr>external_uuid := x, state := s\<rparr>)"
  "same_record uc (uc\<lparr>external_id := y, state := s\<rparr>)"
  "same_record uc (uc\<lparr>status := st\<rparr>)"
  by (simp_all add: same_record_def)

lemma issue_credly_badge_store:
  "store (snd (issue_credly_badge e uc w)) = store w \<or>
   (\<exists>uc'. same_record uc uc' \<and> status uc' = status uc \<and>
      store (snd (issue_credly_badge e uc w)) = save uc' (store w))"
  by (auto simp: issue_credly_badge_def Let_def
      split: option.splits sum.splits error.splits
      intro: exI [of _ "uc\<lparr>state := Some ''error''\<rparr>"]
        exI [of _ "uc\<lparr>external_uuid := x, state := s\<rparr>" for x s])

lemma issue_accredible_badge_store:
  "store (snd (issue_accredible_badge e uc w)) = store w \<or>
   (\<exists>uc'. same_record uc uc' \<and> status uc' = status uc \<and>
      store (snd (issue_accredible_badge e uc w)) = save uc' (store w))"
  by (auto simp: issue_accredible_badge_def Let_def
      split: option.splits sum.splits error.splits
      intro: exI [of _ "uc\<lparr>state := Some ''error''\<rparr>"]
        exI [of _ "uc\<lparr>external_id := x, state := s\<rparr>" for x s])

lemma store_step_keeps_row:
  assumes "wf_db d" "rows_for u ct cid d = [uc]"
    and "d' = d \<or> (\<exists>uc'. same_record uc uc' \<and> status uc' = status uc \<and> d' = save uc' d)"
  shows "wf_db d' \<and> (\<exists>x. rows_for u ct cid d' = [x] \<and> status x = status uc \<and> pk x = pk uc) \<and>
         length (user_credentials d') = length (user_credentials d)"
  using assms(3)
proof
  assume "d' = d"
  then show ?thesis using assms(1,2) by simp
next
  assume "\<exists>uc'. same_record uc uc' \<and> status uc' = status uc \<and> d' = save uc' d"
  then obtain uc' where sr: "same_record uc uc'" and st: "status uc' = status uc"
    and d': "d' = save uc' d" by blast
  show ?thesis
    using save_single_row [OF assms(1,2) sr] st d' sr by (simp add: same_record_def)
qed

subsection \<open>The row of a key across award\<close>

lemma issue_credential_pk:
  assumes "setters_succeed e" "wf_db d"
    and "issue_credential e self c u st a t d = (Inr uc, d')"
    and "rows_for u (cred_model c) (cred_id c) d = [r]"
  shows "pk uc = pk r"
  using issue_credential_cases [OF assms(1-3)] assms(4) by auto

lemma issue_credential_succeeds:
  assumes "setters_succeed e" "wf_db d"
    and "rows_for u (cred_model c) (cred_id c) d = [] \<or>
         (\<exists>r. rows_for u (cred_model c) (cred_id c) d = [r])"
  shows "\<exists>uc d'. issue_credential e self c u st a t d = (Inr uc, d')"
  using assms(3)
proof
  assume "rows_for u (cred_model c) (cred_id c) d = []"
  from issue_credential_new [OF assms(1,2) this] show ?thesis by blast
next
  assume "\<exists>r. rows_for u (cred_model c) (cred_id c) d = [r]"
  then obtain r where "rows_for u (cred_model c) (cred_id c) d = [r]" ..
  from issue_credential_existing [OF assms(1) this, of self st a t] show ?thesis
    by (cases "state r = REVOCATION_STATES_get (issued_user_credential_type self)") auto
qed

lemma base_award_unfold:
  assumes "get_credential e self cid = Inr c"
    and "issue_credential e self c u AWARDED None None (store w) = (Inr uc, d')"
  shows "BadgeTemplateIssuer_award e self u cid w =
           (Inr uc, w\<lparr>store := d', notifications := notifications w @ [BadgeAwarded uc]\<rparr>)"
  using assms by (simp add: BadgeTemplateIssuer_award_def)

lemma base_revoke_unfold:
  assumes "get_credential e self cid = Inr c"
    and "issue_credential e self c u REVOKED None None (store w) = (Inr uc, d')"
  shows "BadgeTemplateIssuer_revoke e self cid u w =
           (Inr uc, w\<lparr>store := d', notifications := notifications w @ [BadgeRevoked uc]\<rparr>)"
  using assms by (simp add: BadgeTemplateIssuer_revoke_def)

text \<open>The store after a call of award, whatever the provider answered.\<close>

lemma award_store:
  assumes "BadgeTemplateIssuer_award e self u cid w = (Inr uc, w1)"
  shows "store (snd (award e self u cid w)) = store w1 \<or>
         (\<exists>uc'. same_record uc uc' \<and> status uc' = status uc \<and>
            store (snd (award e self u cid w)) = save uc' (store w1))"
proof (cases self)
  case BadgeTemplateIssuer
  then show ?thesis using assms by simp
next
  case CredlyBadgeTemplateIssuer
  then show ?thesis
    using assms issue_credly_badge_store [of e uc w1]
    by (simp add: CredlyBadgeTemplateIssuer_award_def)
next
  case AccredibleBadgeTemplateIssuer
  then show ?thesis
    using assms issue_accredible_badge_store [of e uc w1]
    by (simp add: AccredibleBadgeTemplateIssuer_award_def)
qed

lemma award_row:
  assumes "setters_succeed e" "wf_db (store w)" "get_credential e self cid = Inr c"
    and "rows_for u (issued_credential_type self) cid (store w) = [] \<or>
         (\<exists>r. rows_for u (issued_credential_type self) cid (store w) = [r] \<and>
              (status r = AWARDED \<or>
               state r \<noteq> REVOCATION_STATES_get (issued_user_credential_type self)))"
  shows "wf_db (store (snd (award e self u cid w))) \<and>
         (\<exists>x. rows_for u (issued_credential_type self) cid (store (snd (award e self u cid w))) = [x]
              \<and> status x = AWARDED
              \<and> (\<forall>r. rows_for u (issued_credential_type self) cid (store w) = [r] \<longrightarrow> pk x = pk r)) \<and>
         length (user_credentials (store (snd (award e self u cid w)))) =
           (if rows_for u (issued_credential_type self) cid (store w) = []
            then Suc (length (user_credentials (store w)))
            else length (user_credentials (store w)))"
proof -
  let ?ct = "issued_credential_type self"
  note key = get_credential_key [OF assms(3)]
  have rows: "rows_for u (cred_model c) (cred_id c) (store w) = [] \<or>
         (\<exists>r. rows_for u (cred_model c) (cred_id c) (store w) = [r])"
    using assms(4) key by auto
  from issue_credential_succeeds [OF assms(1,2) rows, of self AWARDED None None]
  obtain uc d1 where ic: "issue_credential e self c u AWARDED None None (store w) = (Inr uc, d1)"
    by blast
  let ?w1 = "w\<lparr>store := d1, notifications := notifications w @ [BadgeAwarded uc]\<rparr>"
  have base: "BadgeTemplateIssuer_award e self u cid w = (Inr uc, ?w1)"
    by (rule base_award_unfold [OF assms(3) ic])
  note post = issue_credential_post [OF assms(1,2) ic]
  have wf1: "wf_db d1" and rows1: "rows_for u ?ct cid d1 = [uc]"
    using post(1,2) key by simp_all
  have len1: "length (user_credentials d1) =
           (if rows_for u ?ct cid (store w) = []
            then Suc (length (user_credentials (store w)))
            else length (user_credentials (store w)))"
    using post(4) key by simp
  have st1: "status uc = AWARDED"
    using post(3) assms(4) key by auto
  have pk1: "\<forall>r. rows_for u ?ct cid (store w) = [r] \<longrightarrow> pk uc = pk r"
    using issue_credential_pk [OF assms(1,2) ic] key by simp
  have step: "store (snd (award e self u cid w)) = d1 \<or>
         (\<exists>uc'. same_record uc uc' \<and> status uc' = status uc \<and>
            store (snd (award e self u cid w)) = save uc' d1)"
    using award_store [OF base] by simp
  from store_step_keeps_row [OF wf1 rows1 step] st1 pk1 len1
  show ?thesis by auto
qed

subsection \<open>The log of provider calls\<close>

lemma base_steps_make_no_calls:
  "provider_calls (snd (BadgeTemplateIssuer_award e self u cid w)) = provider_calls w"
  "provider_calls (snd (BadgeTemplateIssuer_revoke e self cid u w)) = provider_calls w"
  by (auto simp: BadgeTemplateIssuer_award_def BadgeTemplateIssuer_revoke_def
      split: sum.splits prod.splits)

lemma issue_steps_call_once:
  assumes "credential_of e uc = Some c"
  shows "provider_calls (snd (issue_credly_badge e uc w)) =
           provider_calls w @
             [CredlyIssueBadge (organization_uuid c)
                (credly_badge_data_for e (get_user_by_username e (username uc)) c)]"
    and "provider_calls (snd (issue_accredible_badge e uc w)) =
           provider_calls w @
             [AccredibleIssueBadge (api_config_id c)
                (accredible_badge_data_for e (get_user_by_username e (username uc)) c uc)]"
  using assms
  by (auto simp: issue_credly_badge_def issue_accredible_badge_def Let_def
      split: option.splits sum.splits error.splits)

lemma revoke_steps_call_once:
  "get_credential e CredlyBadgeTemplateIssuer cid = Inr c \<Longrightarrow>
   provider_calls (snd (revoke_credly_badge e cid uc w)) =
     provider_calls w @
       [CredlyRevokeBadge (organization_uuid c) (external_uuid uc)
          (gettext e ''Open edX internal user credential was revoked'')]"
  "get_credential e AccredibleBadgeTemplateIssuer cid = Inr c \<Longrightarrow>
   provider_calls (snd (revoke_accredible_badge e cid uc w)) =
     provider_calls w @
       [AccredibleRevokeBadge (api_config_id c) (external_id uc) (strftime e (now e))]"
  by (auto simp: revoke_credly_badge_def revoke_accredible_badge_def Let_def
      split: option.splits sum.splits error.splits)

lemma base_award_resolves:
  assumes "BadgeTemplateIssuer_award e self u cid w = (Inr uc, w1)"
  shows "\<exists>c. get_credential e self cid = Inr c \<and> credential_of e uc = Some c \<and>
           username uc = u \<and> provider_calls w1 = provider_calls w \<and>
           notifications w1 = notifications w @ [BadgeAwarded uc]"
proof -
  from base_award_Inr [OF assms] obtain c where
    c: "get_credential e self cid = Inr c"
    and ic: "issue_credential e self c u AWARDED None None (store w) = (Inr uc, store w1)"
    and w1: "w1 = w\<lparr>store := store w1, notifications := notifications w @ [BadgeAwarded uc]\<rparr>"
    by blast
  have key: "has_key u (issued_credential_type self) cid uc"
    using issue_credential_key [OF ic] get_credential_key [OF c] by simp
  have "provider_calls w1 = provider_calls w"
    using base_steps_make_no_calls(1) [of e self u cid w] assms by simp
  moreover have "notifications w1 = notifications w @ [BadgeAwarded uc]"
    by (subst w1) simp
  ultimately show ?thesis
    using c credential_of_resolves [OF c key] key by (auto simp: has_key_def)
qed

lemma base_revoke_resolves:
  assumes "BadgeTemplateIssuer_revoke e self cid u w = (Inr uc, w1)"
  shows "\<exists>c. get_credential e self cid = Inr c \<and> provider_calls w1 = provider_calls w"
  using base_revoke_Inr [OF assms] base_steps_make_no_calls(2) [of e self cid u w] assms
  by auto

subsection \<open>Provider steps that return\<close>

lemma issue_steps_Inr:
  "issue_credly_badge e uc w = (Inr x, w') \<Longrightarrow>
     same_record uc x \<and> status x = status uc \<and> store w' = save x (store w) \<and>
     notifications w' = notifications w"
  "issue_accredible_badge e uc w = (Inr x, w') \<Longrightarrow>
     same_record uc x \<and> status x = status uc \<and> store w' = save x (store w) \<and>
     notifications w' = notifications w"
  by (auto simp: issue_credly_badge_def issue_accredible_badge_def Let_def
      split: option.splits sum.splits error.splits)

lemma revoke_steps_Inr:
  "revoke_credly_badge e cid uc w = (Inr x, w') \<Longrightarrow>
     same_record uc x \<and> status x = status uc \<and> store w' = save x (store w)"
  "revoke_accredible_badge e cid uc w = (Inr x, w') \<Longrightarrow>
     same_record uc x \<and> status x = status uc \<and> store w' = save x (store w)"
  by (auto simp: revoke_credly_badge_def revoke_accredible_badge_def Let_def
      split: option.splits sum.splits error.splits)

lemma revoke_credly_badge_store:
  "store (snd (revoke_credly_badge e cid uc w)) = store w \<or>
   (\<exists>uc'. same_record uc uc' \<and> status uc' = status uc \<and>
      store (snd (revoke_credly_badge e cid uc w)) = save uc' (store w))"
  by (auto simp: revoke_credly_badge_def Let_def
      split: option.splits sum.splits error.splits
      intro: exI [of _ "uc\<lparr>state := s\<rparr>" for s])

lemma revoke_accredible_badge_store:
  "store (snd (revoke_accredible_badge e cid uc w)) = store w \<or>
   (\<exists>uc'. same_record uc uc' \<and> status uc' = status uc \<and>
      store (snd (revoke_accredible_badge e cid uc w)) = save uc' (store w))"
  by (auto simp: revoke_accredible_badge_def Let_def
      split: option.splits sum.splits error.splits
      intro: exI [of _ "uc\<lparr>state := s\<rparr>" for s])

lemma revoke_steps_notifications:
  "notifications (snd (revoke_credly_badge e cid uc w)) = notifications w"
  "notifications (snd (revoke_accredible_badge e cid uc w)) = notifications w"
  by (auto simp: revoke_credly_badge_def revoke_accredible_badge_def Let_def
      split: option.splits sum.splits error.splits)

text \<open>What a call of award that returns leaves behind.\<close>

lemma award_Inr:
  assumes "setters_succeed e" "wf_db (store w)"
    and "award e self u cid w = (Inr uc, w1)"
  shows "\<exists>c. get_credential e self cid = Inr c \<and> wf_db (store w1) \<and>
           rows_for u (issued_credential_type self) cid (store w1) = [uc]"
proof -
  have base_case: "\<exists>c. get_credential e self cid = Inr c \<and> wf_db (store w0) \<and>
           rows_for u (issued_credential_type self) cid (store w0) = [uc0]"
    if base: "BadgeTemplateIssuer_award e self u cid w = (Inr uc0, w0)" for uc0 w0
  proof -
    from base_award_Inr [OF base] obtain c where
      c: "get_credential e self cid = Inr c"
      and ic: "issue_credential e self c u AWARDED None None (store w) = (Inr uc0, store w0)"
      by blast
    from issue_credential_post(1,2) [OF assms(1,2) ic] get_credential_key [OF c] c
    show ?thesis by auto
  qed
  have step: "\<exists>c. get_credential e self cid = Inr c \<and> wf_db (store w1) \<and>
           rows_for u (issued_credential_type self) cid (store w1) = [uc]"
    if base: "BadgeTemplateIssuer_award e self u cid w = (Inr uc0, w0)"
      and saved: "same_record uc0 uc \<and> store w1 = save uc (store w0)" for uc0 w0
  proof -
    from base_case [OF base] obtain c where c: "get_credential e self cid = Inr c"
      and wf0: "wf_db (store w0)"
      and rows0: "rows_for u (issued_credential_type self) cid (store w0) = [uc0]"
      by blast
    from saved have sr: "same_record uc0 uc" by simp
    from save_single_row(1,2) [OF wf0 rows0 sr] saved c show ?thesis by auto
  qed
  show ?thesis
  proof (cases self)
    case BadgeTemplateIssuer
    then show ?thesis using assms(3) base_case by simp
  next
    case CredlyBadgeTemplateIssuer
    then show ?thesis
      using assms(3) base_case step issue_steps_Inr(1)
      by (auto simp: CredlyBadgeTemplateIssuer_award_def split: sum.splits prod.splits if_splits)
  next
    case AccredibleBadgeTemplateIssuer
    then show ?thesis
      using assms(3) base_case step issue_steps_Inr(2)
      by (auto simp: AccredibleBadgeTemplateIssuer_award_def split: sum.splits prod.splits if_splits)
  qed
qed

subsection \<open>Facts about the examples\<close>

lemma get_credential_example:
  "get_credential example_env self 1 = Inr (example_credential (issued_credential_type self))"
  by (cases self) (simp_all add: get_credential_def example_env_def example_credential_def)

lemma wf_db_with: "wf_db (db_with r)"
  by (simp add: wf_db_def db_with_def)

text \<open>The definitions a run from the empty world in the second surroundings unfolds.\<close>

lemmas run_defs =
  CredlyBadgeTemplateIssuer_award_def CredlyBadgeTemplateIssuer_revoke_def
  BadgeTemplateIssuer_award_def BadgeTemplateIssuer_revoke_def
  issue_credly_badge_def revoke_credly_badge_def credly_badge_data_for_def
  get_credential_def credential_of_def issue_credential_def transaction_atomic_def
  get_or_create_def rows_for_def has_key_def create_def save_def
  flaky_env_def example_env_def example_credential_def example_user_def reported_issued_def
  empty_world_def empty_db_def Let_def CredlyBadge_STATES_revoked_def

lemmas accredible_run_defs =
  AccredibleBadgeTemplateIssuer_award_def AccredibleBadgeTemplateIssuer_revoke_def
  BadgeTemplateIssuer_award_def BadgeTemplateIssuer_revoke_def
  issue_accredible_badge_def revoke_accredible_badge_def accredible_badge_data_for_def
  get_credential_def credential_of_def issue_credential_def transaction_atomic_def
  get_or_create_def rows_for_def has_key_def create_def save_def
  expiring_env_def example_env_def example_credential_def example_user_def
  empty_world_def empty_db_def Let_def
  AccredibleBadge_STATES_expired_def AccredibleBadge_STATES_accepted_def

subsection \<open>Atomicity of issue_credential\<close>

text \<open>
  C8. \<open>issue_credential\<close> is all-or-nothing: whenever it raises, whichever step raised
  (the get-or-create or one of the two setters, which may have written before failing),
  the store is exactly the store it was called on, so no partly written User Credential
  stays behind.
\<close>

theorem issue_credential_atomic:
  "fst (issue_credential e self c u st a t d) = Inl err \<Longrightarrow>
   snd (issue_credential e self c u st a t d) = d"
  by (auto simp: issue_credential_def transaction_atomic_def split: prod.splits sum.splits)

text \<open>
  The example: the date-override setter fails after the row for "alice" has been created
  inside the transaction; the table is empty again afterwards.
\<close>

theorem issue_credential_atomic_witness:
  "fst (issue_credential
          (example_env\<lparr>set_credential_date_override :=
             (\<lambda>uc t d. (Inl (OtherError ''no override''), d))\<rparr>)
          BadgeTemplateIssuer (example_credential BadgeTemplate) ''alice'' AWARDED None None
          empty_db) = Inl (OtherError ''no override'') \<and>
   snd (issue_credential
          (example_env\<lparr>set_credential_date_override :=
             (\<lambda>uc t d. (Inl (OtherError ''no override''), d))\<rparr>)
          BadgeTemplateIssuer (example_credential BadgeTemplate) ''alice'' AWARDED None None
          empty_db) = empty_db"
proof -
  have failed:
    "fst (issue_credential
            (example_env\<lparr>set_credential_date_override :=
               (\<lambda>uc t d. (Inl (OtherError ''no override''), d))\<rparr>)
            BadgeTemplateIssuer (example_credential BadgeTemplate) ''alice'' AWARDED None None
            empty_db) = Inl (OtherError ''no override'')"
    by (simp add: issue_credential_def transaction_atomic_def get_or_create_def rows_for_def
        create_def example_env_def empty_db_def Let_def)
  from issue_credential_atomic [OF failed] failed show ?thesis by simp
qed

subsection \<open>The revocation guard of the base class\<close>

text \<open>
  C9. For \<open>BadgeTemplateIssuer\<close> the lookup in \<open>REVOCATION_STATES\<close> gives \<open>None\<close>, so for an
  existing row whose state is a string the guard never holds: \<open>issue_credential\<close> writes
  the requested status to that row and returns it. Only the Credly and the Accredible
  class have a terminal state to compare with.
\<close>

theorem base_issuer_always_overwrites_status:
  assumes "setters_succeed e" and "wf_db d"
    and "rows_for u (cred_model c) (cred_id c) d = [r]" and "state r = Some s"
  shows "REVOCATION_STATES_get (issued_user_credential_type BadgeTemplateIssuer) = None \<and>
         issue_credential e BadgeTemplateIssuer c u st a t d =
           (Inr (r\<lparr>status := st\<rparr>), save (r\<lparr>status := st\<rparr>) d) \<and>
         rows_for u (cred_model c) (cred_id c) (save (r\<lparr>status := st\<rparr>) d) =
           [r\<lparr>status := st\<rparr>] \<and>
         (REVOCATION_STATES_get (issued_user_credential_type self) \<noteq> None \<longleftrightarrow>
            self = CredlyBadgeTemplateIssuer \<or> self = AccredibleBadgeTemplateIssuer)"
proof -
  have "r \<in> set (rows_for u (cred_model c) (cred_id c) d)" using assms(3) by simp
  then have r_in: "r \<in> set (user_credentials d)" by (simp add: rows_for_def)
  have "rows_for u (cred_model c) (cred_id c) (save (r\<lparr>status := st\<rparr>) d) =
          map (\<lambda>x. if x = r then r\<lparr>status := st\<rparr> else x) (rows_for u (cred_model c) (cred_id c) d)"
    by (rule rows_for_save [OF assms(2) r_in]) (simp_all add: has_key_def)
  then have rows: "rows_for u (cred_model c) (cred_id c) (save (r\<lparr>status := st\<rparr>) d) =
          [r\<lparr>status := st\<rparr>]"
    using assms(3) by simp
  have "issue_credential e BadgeTemplateIssuer c u st a t d =
           (Inr (r\<lparr>status := st\<rparr>), save (r\<lparr>status := st\<rparr>) d)"
    using issue_credential_existing [OF assms(1,3), of BadgeTemplateIssuer st a t] assms(4)
    by simp
  moreover have "REVOCATION_STATES_get (issued_user_credential_type self) \<noteq> None \<longleftrightarrow>
            self = CredlyBadgeTemplateIssuer \<or> self = AccredibleBadgeTemplateIssuer"
    by (cases self) simp_all
  ultimately show ?thesis using rows by simp
qed

text \<open>
  The example: a row of the base class with state "created" and status REVOKED is set to
  AWARDED.
\<close>

theorem base_issuer_always_overwrites_status_witness:
  "issue_credential example_env BadgeTemplateIssuer (example_credential BadgeTemplate)
     ''alice'' AWARDED None None
     (db_with (example_row BadgeTemplate REVOKED (Some ''created'') None)) =
   (Inr (example_row BadgeTemplate AWARDED (Some ''created'') None),
    db_with (example_row BadgeTemplate AWARDED (Some ''created'') None))"
proof -
  let ?r = "example_row BadgeTemplate REVOKED (Some ''created'') None"
  have wf: "wf_db (db_with ?r)" by (simp add: wf_db_def db_with_def)
  have rows: "rows_for ''alice'' (cred_model (example_credential BadgeTemplate))
                (cred_id (example_credential BadgeTemplate)) (db_with ?r) = [?r]"
    by (simp add: rows_for_def db_with_def has_key_def example_row_def example_credential_def)
  have st: "state ?r = Some ''created''" by (simp add: example_row_def)
  from base_issuer_always_overwrites_status [OF setters_succeed_example wf rows st,
      of AWARDED None None BadgeTemplateIssuer]
  show ?thesis by (simp add: save_def db_with_def example_row_def)
qed

subsection \<open>Awarding twice\<close>

text \<open>
  C2, as stated, promises status AWARDED after two calls of \<open>award\<close> for every pair. The
  revocation guard makes an exception: "alice" is awarded the Credly definition 1 and then
  revoked, which leaves her row with state "revoked" and status REVOKED; two further calls
  of \<open>award\<close> both return normally and the row keeps status REVOKED.
\<close>

theorem award_twice_terminal_record_counterexample:
  "fst (award example_env CredlyBadgeTemplateIssuer ''alice'' 1
     (snd (award example_env CredlyBadgeTemplateIssuer ''alice'' 1
       (snd (revoke example_env CredlyBadgeTemplateIssuer 1 ''alice''
         (snd (award example_env CredlyBadgeTemplateIssuer ''alice'' 1 empty_world))))))) =
     Inr (example_row CredlyBadgeTemplate REVOKED (Some ''revoked'') (Some ''ext-1'')) \<and>
   map status
     (rows_for ''alice'' CredlyBadgeTemplate 1
        (store (snd (award example_env CredlyBadgeTemplateIssuer ''alice'' 1
     (snd (award example_env CredlyBadgeTemplateIssuer ''alice'' 1
       (snd (revoke example_env CredlyBadgeTemplateIssuer 1 ''alice''
         (snd (award example_env CredlyBadgeTemplateIssuer ''alice'' 1 empty_world))))))))))
   = [REVOKED]"
  by (simp add: CredlyBadgeTemplateIssuer_award_def CredlyBadgeTemplateIssuer_revoke_def
  BadgeTemplateIssuer_award_def BadgeTemplateIssuer_revoke_def
  issue_credly_badge_def revoke_credly_badge_def credly_badge_data_for_def
  get_credential_def credential_of_def issue_credential_def transaction_atomic_def
  get_or_create_def rows_for_def has_key_def create_def save_def
  example_env_def example_credential_def example_user_def example_row_def
  empty_world_def empty_db_def Let_def CredlyBadge_STATES_revoked_def)

text \<open>
  C2, amended. For an issuer of any of the three classes and a pair that has no row yet,
  or one row that is not in the terminal state of the issuer's class: after two calls of
  \<open>award\<close> (whatever the provider answered, even with an error) the pair has exactly one
  row, its status is AWARDED, it is the row the first call left (same primary key), and
  the second call added no row to the table.
\<close>

theorem award_twice_single_awarded_record:
  assumes "setters_succeed e" and "wf_db (store w)" and "get_credential e self cid = Inr c"
    and "rows_for u (issued_credential_type self) cid (store w) = [] \<or>
         (\<exists>r. rows_for u (issued_credential_type self) cid (store w) = [r] \<and>
              state r \<noteq> REVOCATION_STATES_get (issued_user_credential_type self))"
  shows "\<exists>x1 x2.
           rows_for u (issued_credential_type self) cid (store (snd (award e self u cid w))) = [x1] \<and>
           rows_for u (issued_credential_type self) cid
             (store (snd (award e self u cid (snd (award e self u cid w))))) = [x2] \<and>
           status x2 = AWARDED \<and> pk x2 = pk x1 \<and>
           length (user_credentials (store (snd (award e self u cid (snd (award e self u cid w)))))) =
             length (user_credentials (store (snd (award e self u cid w))))"
proof -
  let ?ct = "issued_credential_type self"
  let ?w1 = "snd (award e self u cid w)"
  have pre: "rows_for u ?ct cid (store w) = [] \<or>
         (\<exists>r. rows_for u ?ct cid (store w) = [r] \<and>
              (status r = AWARDED \<or>
               state r \<noteq> REVOCATION_STATES_get (issued_user_credential_type self)))"
    using assms(4) by auto
  from award_row [OF assms(1,2,3) pre]
  obtain x1 where wf1: "wf_db (store ?w1)" and rows1: "rows_for u ?ct cid (store ?w1) = [x1]"
    and st1: "status x1 = AWARDED"
    by blast
  have pre1: "rows_for u ?ct cid (store ?w1) = [] \<or>
         (\<exists>r. rows_for u ?ct cid (store ?w1) = [r] \<and>
              (status r = AWARDED \<or>
               state r \<noteq> REVOCATION_STATES_get (issued_user_credential_type self)))"
    using rows1 st1 by simp
  from award_row [OF assms(1) wf1 assms(3) pre1] rows1
  show ?thesis by auto
qed

text \<open>The example: "alice" is awarded the Credly definition 1 twice, starting without rows.\<close>

theorem award_twice_single_awarded_record_witness:
  "\<exists>x1 x2.
     rows_for ''alice'' CredlyBadgeTemplate 1
       (store (snd (award example_env CredlyBadgeTemplateIssuer ''alice'' 1 empty_world))) = [x1] \<and>
     rows_for ''alice'' CredlyBadgeTemplate 1
       (store (snd (award example_env CredlyBadgeTemplateIssuer ''alice'' 1
          (snd (award example_env CredlyBadgeTemplateIssuer ''alice'' 1 empty_world))))) = [x2] \<and>
     status x2 = AWARDED \<and> pk x2 = pk x1 \<and>
     length (user_credentials (store (snd (award example_env CredlyBadgeTemplateIssuer ''alice'' 1
          (snd (award example_env CredlyBadgeTemplateIssuer ''alice'' 1 empty_world)))))) =
       length (user_credentials
          (store (snd (award example_env CredlyBadgeTemplateIssuer ''alice'' 1 empty_world))))"
proof -
  have wf: "wf_db (store empty_world)" by (simp add: empty_world_def wf_db_empty)
  have cred: "get_credential example_env CredlyBadgeTemplateIssuer 1 =
                Inr (example_credential CredlyBadgeTemplate)"
    by (simp add: get_credential_def example_env_def example_credential_def)
  have rows: "rows_for ''alice'' (issued_credential_type CredlyBadgeTemplateIssuer) 1
                (store empty_world) = [] \<or>
         (\<exists>r. rows_for ''alice'' (issued_credential_type CredlyBadgeTemplateIssuer) 1
                 (store empty_world) = [r] \<and>
              state r \<noteq> REVOCATION_STATES_get (issued_user_credential_type CredlyBadgeTemplateIssuer))"
    by (simp add: rows_for_def empty_world_def empty_db_def)
  from award_twice_single_awarded_record [OF setters_succeed_example wf cred rows]
  show ?thesis by simp
qed


subsection \<open>The revocation guard of the provider classes\<close>

text \<open>
  C1, as stated, has every award of a row in the terminal state complete without raising.
  The guard itself raises nothing, but a row that is not propagated is sent to the
  provider again: "alice" is awarded the Accredible group 1 and revoked, which leaves her
  row in the state "expired"; awarded again while the provider is unavailable, the call
  raises the provider's error.
\<close>

theorem award_in_terminal_state_raises_counterexample:
  "map state
     (rows_for ''alice'' AccredibleGroup 1
        (store (snd (revoke expiring_env AccredibleBadgeTemplateIssuer 1 ''alice''
           (snd (award expiring_env AccredibleBadgeTemplateIssuer ''alice'' 1 empty_world))))))
     = [REVOCATION_STATES_get AccredibleBadge] \<and>
   fst (award expiring_env AccredibleBadgeTemplateIssuer ''alice'' 1
          (snd (revoke expiring_env AccredibleBadgeTemplateIssuer 1 ''alice''
             (snd (award expiring_env AccredibleBadgeTemplateIssuer ''alice'' 1 empty_world))))) =
     Inl (BadgeProviderError ''unavailable'')"
  by (simp add: accredible_run_defs)

text \<open>
  C1, amended. For the Credly and the Accredible issuer (the classes with an entry in
  \<open>REVOCATION_STATES\<close>): when the existing row of the pair is in the terminal state of its
  class, the local step of \<open>award\<close> returns that row as it is, writes nothing and raises
  nothing; after the whole call the row still has the status it had. A row that is
  propagated makes the whole call return normally with the world changed by the
  notification only; for a row that is not propagated the call is the external issue
  step on that row, and returns or raises as that step does.
\<close>

theorem award_keeps_status_in_terminal_state:
  assumes "setters_succeed e" and "wf_db (store w)" and "get_credential e self cid = Inr c"
    and "rows_for u (issued_credential_type self) cid (store w) = [r]"
    and "REVOCATION_STATES_get (issued_user_credential_type self) = Some s"
    and "state r = Some s"
  shows "BadgeTemplateIssuer_award e self u cid w =
           (Inr r, w\<lparr>notifications := notifications w @ [BadgeAwarded r]\<rparr>) \<and>
         (\<exists>x. rows_for u (issued_credential_type self) cid (store (snd (award e self u cid w))) = [x]
              \<and> status x = status r \<and> pk x = pk r) \<and>
         (propagated e r \<longrightarrow>
            award e self u cid w =
              (Inr r, w\<lparr>notifications := notifications w @ [BadgeAwarded r]\<rparr>)) \<and>
         (\<not> propagated e r \<longrightarrow>
            award e self u cid w =
              issue_external e self r
                (w\<lparr>notifications := notifications w @ [BadgeAwarded r]\<rparr>))"
proof -
  let ?ct = "issued_credential_type self"
  let ?w1 = "w\<lparr>notifications := notifications w @ [BadgeAwarded r]\<rparr>"
  note key = get_credential_key [OF assms(3)]
  have rows: "rows_for u (cred_model c) (cred_id c) (store w) = [r]"
    using assms(4) key by simp
  have ic: "issue_credential e self c u AWARDED None None (store w) = (Inr r, store w)"
    using issue_credential_existing [OF assms(1) rows, of self AWARDED None None] assms(5,6)
    by simp
  have base: "BadgeTemplateIssuer_award e self u cid w = (Inr r, ?w1)"
    using base_award_unfold [OF assms(3) ic] by simp
  have step: "store (snd (award e self u cid w)) = store w \<or>
         (\<exists>uc'. same_record r uc' \<and> status uc' = status r \<and>
            store (snd (award e self u cid w)) = save uc' (store w))"
    using award_store [OF base] by simp
  have row: "\<exists>x. rows_for u ?ct cid (store (snd (award e self u cid w))) = [x]
              \<and> status x = status r \<and> pk x = pk r"
    using store_step_keeps_row [OF assms(2,4) step] by simp
  have not_base: "self \<noteq> BadgeTemplateIssuer" using assms(5) by auto
  have gated: "propagated e r \<longrightarrow> award e self u cid w = (Inr r, ?w1)"
    using base not_base
    by (cases self)
      (simp_all add: CredlyBadgeTemplateIssuer_award_def AccredibleBadgeTemplateIssuer_award_def)
  have err: "\<not> propagated e r \<longrightarrow> award e self u cid w = issue_external e self r ?w1"
    using base not_base
    by (cases self)
      (simp_all add: CredlyBadgeTemplateIssuer_award_def AccredibleBadgeTemplateIssuer_award_def)
  show ?thesis using base row gated err by blast
qed

text \<open>
  The example: a propagated Credly row in state "revoked" with status REVOKED is awarded
  again; the call returns the row unchanged and only the notification is added.
\<close>

theorem award_keeps_status_in_terminal_state_witness:
  "award example_env CredlyBadgeTemplateIssuer ''alice'' 1
     (world_with (example_row CredlyBadgeTemplate REVOKED (Some ''revoked'') (Some ''ext-1''))) =
   (Inr (example_row CredlyBadgeTemplate REVOKED (Some ''revoked'') (Some ''ext-1'')),
    (world_with (example_row CredlyBadgeTemplate REVOKED (Some ''revoked'') (Some ''ext-1'')))
      \<lparr>notifications :=
         [BadgeAwarded (example_row CredlyBadgeTemplate REVOKED (Some ''revoked'') (Some ''ext-1''))]\<rparr>)"
proof -
  let ?r = "example_row CredlyBadgeTemplate REVOKED (Some ''revoked'') (Some ''ext-1'')"
  have wf: "wf_db (store (world_with ?r))" by (simp add: world_with_def wf_db_with)
  have rows: "rows_for ''alice'' (issued_credential_type CredlyBadgeTemplateIssuer) 1
                (store (world_with ?r)) = [?r]"
    by (simp add: rows_for_def world_with_def db_with_def has_key_def example_row_def)
  have terminal: "REVOCATION_STATES_get (issued_user_credential_type CredlyBadgeTemplateIssuer) =
                Some ''revoked''"
    by (simp add: CredlyBadge_STATES_revoked_def)
  have st: "state ?r = Some ''revoked''" by (simp add: example_row_def)
  have sent: "propagated example_env ?r" by (simp add: example_env_def example_row_def)
  from award_keeps_status_in_terminal_state
         [OF setters_succeed_example wf get_credential_example rows terminal st] sent
  show ?thesis by (simp add: world_with_def)
qed

subsection \<open>Revoking\<close>

text \<open>
  C7, as stated, has \<open>revoke\<close> after \<open>award\<close> set the status to REVOKED and return the row.
  For a provider class neither holds throughout. When the Credly provider is unavailable
  for the revoke call of a propagated row, \<open>revoke\<close> raises instead of returning. When the
  provider answered the issue call with the state "revoked", the row \<open>award\<close> left is in
  the terminal state, the guard skips the write and \<open>revoke\<close> returns it with status
  AWARDED.
\<close>

theorem revoke_after_award_counterexample:
  "fst (award (example_env\<lparr>credly_revoke_badge :=
                 (\<lambda>calls org ext reason. Inl (BadgeProviderError ''unavailable''))\<rparr>)
          CredlyBadgeTemplateIssuer ''alice'' 1 empty_world) =
     Inr (example_row CredlyBadgeTemplate AWARDED (Some ''accepted'') (Some ''ext-1'')) \<and>
   fst (revoke (example_env\<lparr>credly_revoke_badge :=
                 (\<lambda>calls org ext reason. Inl (BadgeProviderError ''unavailable''))\<rparr>)
          CredlyBadgeTemplateIssuer 1 ''alice''
          (snd (award (example_env\<lparr>credly_revoke_badge :=
                 (\<lambda>calls org ext reason. Inl (BadgeProviderError ''unavailable''))\<rparr>)
             CredlyBadgeTemplateIssuer ''alice'' 1 empty_world))) =
     Inl (BadgeProviderError ''unavailable'') \<and>
   fst (revoke (example_env\<lparr>credly_issue_badge :=
                 (\<lambda>calls org dat.
                    Inr [''data'' \<mapsto> [''id'' \<mapsto> ''ext-1'', ''state'' \<mapsto> ''revoked'']])\<rparr>)
          CredlyBadgeTemplateIssuer 1 ''alice''
          (snd (award (example_env\<lparr>credly_issue_badge :=
                 (\<lambda>calls org dat.
                    Inr [''data'' \<mapsto> [''id'' \<mapsto> ''ext-1'', ''state'' \<mapsto> ''revoked'']])\<rparr>)
             CredlyBadgeTemplateIssuer ''alice'' 1 empty_world))) =
     Inr (example_row CredlyBadgeTemplate AWARDED (Some ''revoked'') (Some ''ext-1''))"
  by (simp add: CredlyBadgeTemplateIssuer_award_def CredlyBadgeTemplateIssuer_revoke_def
      BadgeTemplateIssuer_award_def BadgeTemplateIssuer_revoke_def
      issue_credly_badge_def revoke_credly_badge_def credly_badge_data_for_def
      get_credential_def credential_of_def issue_credential_def transaction_atomic_def
      get_or_create_def rows_for_def has_key_def create_def save_def
      example_env_def example_credential_def example_user_def example_row_def
      empty_world_def empty_db_def Let_def CredlyBadge_STATES_revoked_def)

text \<open>
  C7, amended. For an issuer of any of the three classes: when \<open>award\<close> returned the row
  \<open>uc\<close> and \<open>uc\<close> is not in the terminal state of its class, \<open>uc\<close> is the only row of the
  pair, and \<open>revoke\<close> called next writes status REVOKED over that same row (same primary
  key, the pair still has one row, the table has not grown) and emits the "revoked"
  notification for it, whatever the provider answers. For the base class and for a row
  that is not propagated \<open>revoke\<close> returns that row; for a propagated row of a provider
  class the call is the external revoke step, and whenever \<open>revoke\<close> returns, it returns
  the row of the pair with status REVOKED.
\<close>

theorem revoke_after_award_writes_same_record:
  assumes "setters_succeed e" and "wf_db (store w)"
    and "award e self u cid w = (Inr uc, w1)"
    and "state uc \<noteq> REVOCATION_STATES_get (issued_user_credential_type self)"
  shows "rows_for u (issued_credential_type self) cid (store w1) = [uc] \<and>
         BadgeTemplateIssuer_revoke e self cid u w1 =
           (Inr (uc\<lparr>status := REVOKED\<rparr>),
            w1\<lparr>store := save (uc\<lparr>status := REVOKED\<rparr>) (store w1),
               notifications := notifications w1 @ [BadgeRevoked (uc\<lparr>status := REVOKED\<rparr>)]\<rparr>) \<and>
         (\<exists>x. rows_for u (issued_credential_type self) cid
                 (store (snd (revoke e self cid u w1))) = [x] \<and>
              status x = REVOKED \<and> pk x = pk uc) \<and>
         length (user_credentials (store (snd (revoke e self cid u w1)))) =
           length (user_credentials (store w1)) \<and>
         notifications (snd (revoke e self cid u w1)) =
           notifications w1 @ [BadgeRevoked (uc\<lparr>status := REVOKED\<rparr>)] \<and>
         (self = BadgeTemplateIssuer \<or> \<not> propagated e (uc\<lparr>status := REVOKED\<rparr>) \<longrightarrow>
            revoke e self cid u w1 =
              (Inr (uc\<lparr>status := REVOKED\<rparr>),
               w1\<lparr>store := save (uc\<lparr>status := REVOKED\<rparr>) (store w1),
                  notifications := notifications w1 @ [BadgeRevoked (uc\<lparr>status := REVOKED\<rparr>)]\<rparr>)) \<and>
         (self \<noteq> BadgeTemplateIssuer \<and> propagated e (uc\<lparr>status := REVOKED\<rparr>) \<longrightarrow>
            revoke e self cid u w1 =
              revoke_external e self cid (uc\<lparr>status := REVOKED\<rparr>)
                (w1\<lparr>store := save (uc\<lparr>status := REVOKED\<rparr>) (store w1),
                   notifications := notifications w1 @ [BadgeRevoked (uc\<lparr>status := REVOKED\<rparr>)]\<rparr>)) \<and>
         (\<forall>x w3. revoke e self cid u w1 = (Inr x, w3) \<longrightarrow>
            rows_for u (issued_credential_type self) cid (store w3) = [x] \<and>
            status x = REVOKED \<and> pk x = pk uc)"
proof -
  let ?ct = "issued_credential_type self"
  let ?uc = "uc\<lparr>status := REVOKED\<rparr>"
  let ?w2 = "w1\<lparr>store := save ?uc (store w1),
               notifications := notifications w1 @ [BadgeRevoked ?uc]\<rparr>"
  from award_Inr [OF assms(1,2,3)] obtain c where
    c: "get_credential e self cid = Inr c" and wf1: "wf_db (store w1)"
    and rows1: "rows_for u ?ct cid (store w1) = [uc]"
    by blast
  note key = get_credential_key [OF c]
  have rows1': "rows_for u (cred_model c) (cred_id c) (store w1) = [uc]"
    using rows1 key by simp
  have ic: "issue_credential e self c u REVOKED None None (store w1) =
               (Inr ?uc, save ?uc (store w1))"
    using issue_credential_existing [OF assms(1) rows1', of self REVOKED None None] assms(4)
    by simp
  have base: "BadgeTemplateIssuer_revoke e self cid u w1 = (Inr ?uc, ?w2)"
    by (rule base_revoke_unfold [OF c ic])
  have sr: "same_record uc ?uc" by simp
  note kept = save_single_row [OF wf1 rows1 sr]
  have wf2: "wf_db (store ?w2)" and rows2: "rows_for u ?ct cid (store ?w2) = [?uc]"
    and len2: "length (user_credentials (store ?w2)) = length (user_credentials (store w1))"
    using kept by simp_all
  have run: "revoke e self cid u w1 =
               (if self \<noteq> BadgeTemplateIssuer \<and> propagated e ?uc
                then revoke_external e self cid ?uc ?w2 else (Inr ?uc, ?w2))"
    using base
    by (cases self)
      (simp_all add: CredlyBadgeTemplateIssuer_revoke_def AccredibleBadgeTemplateIssuer_revoke_def)
  have ext_store: "store (snd (revoke_external e self cid ?uc ?w2)) = store ?w2 \<or>
         (\<exists>uc'. same_record ?uc uc' \<and> status uc' = status ?uc \<and>
            store (snd (revoke_external e self cid ?uc ?w2)) = save uc' (store ?w2))"
    using revoke_credly_badge_store [of e cid ?uc ?w2]
      revoke_accredible_badge_store [of e cid ?uc ?w2]
    by (cases self) simp_all
  have ext_notes: "notifications (snd (revoke_external e self cid ?uc ?w2)) = notifications ?w2"
    using revoke_steps_notifications [of e cid ?uc ?w2] by (cases self) simp_all
  have step: "store (snd (revoke e self cid u w1)) = store ?w2 \<or>
         (\<exists>uc'. same_record ?uc uc' \<and> status uc' = status ?uc \<and>
            store (snd (revoke e self cid u w1)) = save uc' (store ?w2))"
    using ext_store by (simp add: run)
  from store_step_keeps_row [OF wf2 rows2 step] len2
  have after: "(\<exists>x. rows_for u ?ct cid (store (snd (revoke e self cid u w1))) = [x] \<and>
              status x = REVOKED \<and> pk x = pk uc) \<and>
         length (user_credentials (store (snd (revoke e self cid u w1)))) =
           length (user_credentials (store w1))"
    by simp
  have notes_after: "notifications (snd (revoke e self cid u w1)) =
           notifications w1 @ [BadgeRevoked ?uc]"
    using ext_notes by (simp add: run)
  have ext_ret: "rows_for u ?ct cid (store w3) = [x] \<and> status x = REVOKED \<and> pk x = pk uc"
    if ret: "revoke_external e self cid ?uc ?w2 = (Inr x, w3)" for x w3
  proof -
    have "(x = ?uc \<and> w3 = ?w2) \<or>
          (same_record ?uc x \<and> status x = status ?uc \<and> store w3 = save x (store ?w2))"
    proof (cases self)
      case BadgeTemplateIssuer
      then show ?thesis using ret by auto
    next
      case CredlyBadgeTemplateIssuer
      then have "revoke_credly_badge e cid ?uc ?w2 = (Inr x, w3)" using ret by simp
      from revoke_steps_Inr(1) [OF this] show ?thesis by simp
    next
      case AccredibleBadgeTemplateIssuer
      then have "revoke_accredible_badge e cid ?uc ?w2 = (Inr x, w3)" using ret by simp
      from revoke_steps_Inr(2) [OF this] show ?thesis by simp
    qed
    then show ?thesis
    proof
      assume "x = ?uc \<and> w3 = ?w2"
      then show ?thesis using rows2 by simp
    next
      assume saved: "same_record ?uc x \<and> status x = status ?uc \<and> store w3 = save x (store ?w2)"
      then have srx: "same_record ?uc x" by simp
      from save_single_row(2) [OF wf2 rows2 srx] saved srx
      show ?thesis by (simp add: same_record_def)
    qed
  qed
  have quiet: "self = BadgeTemplateIssuer \<or> \<not> propagated e ?uc \<longrightarrow>
            revoke e self cid u w1 = (Inr ?uc, ?w2)"
    using run by simp
  have loud: "self \<noteq> BadgeTemplateIssuer \<and> propagated e ?uc \<longrightarrow>
            revoke e self cid u w1 = revoke_external e self cid ?uc ?w2"
    using run by simp
  have returned: "\<forall>x w3. revoke e self cid u w1 = (Inr x, w3) \<longrightarrow>
            rows_for u ?ct cid (store w3) = [x] \<and> status x = REVOKED \<and> pk x = pk uc"
  proof (intro allI impI)
    fix x w3
    assume r: "revoke e self cid u w1 = (Inr x, w3)"
    show "rows_for u ?ct cid (store w3) = [x] \<and> status x = REVOKED \<and> pk x = pk uc"
    proof (cases "self \<noteq> BadgeTemplateIssuer \<and> propagated e ?uc")
      case True
      with loud have eq: "revoke e self cid u w1 = revoke_external e self cid ?uc ?w2"
        by blast
      have "revoke_external e self cid ?uc ?w2 = (Inr x, w3)" by (rule trans [OF eq [symmetric] r])
      then show ?thesis by (rule ext_ret)
    next
      case False
      with quiet have eq: "revoke e self cid u w1 = (Inr ?uc, ?w2)" by blast
      have "(Inr ?uc :: error + user_credential, ?w2) = (Inr x, w3)" by (rule trans [OF eq [symmetric] r])
      then have "x = ?uc" "w3 = ?w2" by auto
      then show ?thesis using rows2 by simp
    qed
  qed
  from rows1 base after notes_after quiet loud returned
  show ?thesis by blast
qed


text \<open>
  The example: "alice" is awarded the Credly definition 1 and then revoked; the provider
  reports "revoked" and the row is returned with status REVOKED.
\<close>

theorem revoke_after_award_writes_same_record_witness:
  "revoke example_env CredlyBadgeTemplateIssuer 1 ''alice''
     (snd (award example_env CredlyBadgeTemplateIssuer ''alice'' 1 empty_world)) =
   (Inr (example_row CredlyBadgeTemplate REVOKED (Some ''revoked'') (Some ''ext-1'')),
    snd (revoke example_env CredlyBadgeTemplateIssuer 1 ''alice''
      (snd (award example_env CredlyBadgeTemplateIssuer ''alice'' 1 empty_world)))) \<and>
   rows_for ''alice'' CredlyBadgeTemplate 1
     (store (snd (revoke example_env CredlyBadgeTemplateIssuer 1 ''alice''
        (snd (award example_env CredlyBadgeTemplateIssuer ''alice'' 1 empty_world))))) =
     [example_row CredlyBadgeTemplate REVOKED (Some ''revoked'') (Some ''ext-1'')] \<and>
   length (user_credentials
     (store (snd (revoke example_env CredlyBadgeTemplateIssuer 1 ''alice''
        (snd (award example_env CredlyBadgeTemplateIssuer ''alice'' 1 empty_world)))))) =
   length (user_credentials
     (store (snd (award example_env CredlyBadgeTemplateIssuer ''alice'' 1 empty_world))))"
proof -
  let ?w1 = "snd (award example_env CredlyBadgeTemplateIssuer ''alice'' 1 empty_world)"
  let ?uc = "example_row CredlyBadgeTemplate AWARDED (Some ''accepted'') (Some ''ext-1'')"
  let ?x = "example_row CredlyBadgeTemplate REVOKED (Some ''revoked'') (Some ''ext-1'')"
  note defs = CredlyBadgeTemplateIssuer_award_def CredlyBadgeTemplateIssuer_revoke_def
      BadgeTemplateIssuer_award_def BadgeTemplateIssuer_revoke_def
      issue_credly_badge_def revoke_credly_badge_def credly_badge_data_for_def
      get_credential_def credential_of_def issue_credential_def transaction_atomic_def
      get_or_create_def rows_for_def has_key_def create_def save_def
      example_env_def example_credential_def example_user_def example_row_def
      empty_world_def empty_db_def Let_def CredlyBadge_STATES_revoked_def
  have wf: "wf_db (store empty_world)" by (simp add: empty_world_def wf_db_empty)
  have "fst (award example_env CredlyBadgeTemplateIssuer ''alice'' 1 empty_world) = Inr ?uc"
    by (simp add: defs)
  then have aw: "award example_env CredlyBadgeTemplateIssuer ''alice'' 1 empty_world = (Inr ?uc, ?w1)"
    by (simp add: prod_eq_iff)
  have st: "state ?uc \<noteq> REVOCATION_STATES_get (issued_user_credential_type CredlyBadgeTemplateIssuer)"
    by (simp add: example_row_def CredlyBadge_STATES_revoked_def)
  have "fst (revoke example_env CredlyBadgeTemplateIssuer 1 ''alice'' ?w1) = Inr ?x"
    by (simp add: defs)
  then have rv: "revoke example_env CredlyBadgeTemplateIssuer 1 ''alice'' ?w1 =
                   (Inr ?x, snd (revoke example_env CredlyBadgeTemplateIssuer 1 ''alice'' ?w1))"
    by (simp add: prod_eq_iff)
  from revoke_after_award_writes_same_record [OF setters_succeed_example wf aw st] rv
  show ?thesis by auto
qed


text \<open>
  C10. For a pair without a row, \<open>revoke\<close> does not fail: get-or-create inserts a row with
  status REVOKED, the "revoked" notification is emitted for it, and it is returned. This is
  the inherited method, which is all of \<open>revoke\<close> for the base class and for a provider
  class whose new row is not propagated.
\<close>

theorem revoke_without_record_creates_revoked:
  assumes "setters_succeed e" and "wf_db (store w)" and "get_credential e self cid = Inr c"
    and "rows_for u (issued_credential_type self) cid (store w) = []"
  shows "BadgeTemplateIssuer_revoke e self cid u w =
           (Inr (fst (create e u (issued_credential_type self) cid REVOKED (store w))),
            w\<lparr>store := snd (create e u (issued_credential_type self) cid REVOKED (store w)),
              notifications := notifications w @
                [BadgeRevoked (fst (create e u (issued_credential_type self) cid REVOKED (store w)))]\<rparr>) \<and>
         status (fst (create e u (issued_credential_type self) cid REVOKED (store w))) = REVOKED \<and>
         rows_for u (issued_credential_type self) cid
           (snd (create e u (issued_credential_type self) cid REVOKED (store w))) =
           [fst (create e u (issued_credential_type self) cid REVOKED (store w))] \<and>
         length (user_credentials (snd (create e u (issued_credential_type self) cid REVOKED (store w)))) =
           Suc (length (user_credentials (store w))) \<and>
         (self = BadgeTemplateIssuer \<or>
          \<not> propagated e (fst (create e u (issued_credential_type self) cid REVOKED (store w))) \<longrightarrow>
            revoke e self cid u w = BadgeTemplateIssuer_revoke e self cid u w)"
proof -
  let ?ct = "issued_credential_type self"
  note key = get_credential_key [OF assms(3)]
  have rows: "rows_for u (cred_model c) (cred_id c) (store w) = []"
    using assms(4) key by simp
  have ic: "issue_credential e self c u REVOKED None None (store w) =
              (Inr (fst (create e u ?ct cid REVOKED (store w))),
               snd (create e u ?ct cid REVOKED (store w)))"
    using issue_credential_new [OF assms(1,2) rows, of self REVOKED None None] key by simp
  note base = base_revoke_unfold [OF assms(3) ic]
  have disp: "self = BadgeTemplateIssuer \<or>
          \<not> propagated e (fst (create e u ?ct cid REVOKED (store w))) \<longrightarrow>
            revoke e self cid u w = BadgeTemplateIssuer_revoke e self cid u w"
    using base
    by (cases self)
      (simp_all add: CredlyBadgeTemplateIssuer_revoke_def AccredibleBadgeTemplateIssuer_revoke_def)
  show ?thesis
    using base disp rows_for_create [OF assms(4), of e REVOKED] create_fields(1) [of e u ?ct cid REVOKED "store w"]
    by (simp add: create_def Let_def)
qed

text \<open>The example: "bob", who has no row, is revoked the Credly definition 1.\<close>

theorem revoke_without_record_creates_revoked_witness:
  "revoke example_env CredlyBadgeTemplateIssuer 1 ''bob'' empty_world =
     (Inr \<lparr>pk = 1, username = ''bob'', credential_content_type = CredlyBadgeTemplate,
           credential_id = 1, status = REVOKED, state = Some ''created'',
           external_uuid = None, external_id = None, created = 0\<rparr>,
      \<lparr>store = db_with \<lparr>pk = 1, username = ''bob'', credential_content_type = CredlyBadgeTemplate,
           credential_id = 1, status = REVOKED, state = Some ''created'',
           external_uuid = None, external_id = None, created = 0\<rparr>,
       notifications = [BadgeRevoked \<lparr>pk = 1, username = ''bob'',
           credential_content_type = CredlyBadgeTemplate,
           credential_id = 1, status = REVOKED, state = Some ''created'',
           external_uuid = None, external_id = None, created = 0\<rparr>],
       provider_calls = []\<rparr>)"
proof -
  have wf: "wf_db (store empty_world)" by (simp add: empty_world_def wf_db_empty)
  have rows: "rows_for ''bob'' (issued_credential_type CredlyBadgeTemplateIssuer) 1
                (store empty_world) = []"
    by (simp add: rows_for_def empty_world_def empty_db_def)
  from revoke_without_record_creates_revoked
         [OF setters_succeed_example wf get_credential_example rows]
  show ?thesis
    by (simp add: create_def Let_def example_env_def empty_world_def empty_db_def db_with_def)
qed


subsection \<open>Writing the provider's answer back\<close>

text \<open>
  C5. When the Credly issue call returns a response with a "data" entry,
  \<open>issue_credly_badge\<close> copies \<open>data.id\<close> into \<open>external_uuid\<close> and \<open>data.state\<close> into \<open>state\<close>
  of the object and saves it: the saved object is a row of the table afterwards.
\<close>

theorem issue_credly_badge_copies_id_and_state:
  assumes "credential_of e uc = Some bt"
    and "credly_issue_badge e (provider_calls w) (organization_uuid bt)
           (credly_badge_data_for e (get_user_by_username e (username uc)) bt) = Inr resp"
    and "resp ''data'' = Some dat"
  shows "issue_credly_badge e uc w =
           (Inr (uc\<lparr>external_uuid := dat ''id'', state := dat ''state''\<rparr>),
            w\<lparr>provider_calls := provider_calls w @
                 [CredlyIssueBadge (organization_uuid bt)
                    (credly_badge_data_for e (get_user_by_username e (username uc)) bt)],
              store := save (uc\<lparr>external_uuid := dat ''id'', state := dat ''state''\<rparr>) (store w)\<rparr>) \<and>
         external_uuid (uc\<lparr>external_uuid := dat ''id'', state := dat ''state''\<rparr>) = dat ''id'' \<and>
         state (uc\<lparr>external_uuid := dat ''id'', state := dat ''state''\<rparr>) = dat ''state'' \<and>
         uc\<lparr>external_uuid := dat ''id'', state := dat ''state''\<rparr> \<in>
           set (user_credentials
                  (save (uc\<lparr>external_uuid := dat ''id'', state := dat ''state''\<rparr>) (store w)))"
  using assms by (simp add: issue_credly_badge_def Let_def save_holds_row)

text \<open>
  The example of the specification: the response
  \<open>{"data": {"id": "ext-1", "state": "accepted"}}\<close> leaves the row with
  \<open>external_uuid = "ext-1"\<close> and \<open>state = "accepted"\<close>.
\<close>

theorem issue_credly_badge_copies_id_and_state_witness:
  "issue_credly_badge example_env
     (example_row CredlyBadgeTemplate AWARDED (Some ''created'') None)
     (world_with (example_row CredlyBadgeTemplate AWARDED (Some ''created'') None)) =
   (Inr (example_row CredlyBadgeTemplate AWARDED (Some ''accepted'') (Some ''ext-1'')),
    \<lparr>store = db_with (example_row CredlyBadgeTemplate AWARDED (Some ''accepted'') (Some ''ext-1'')),
     notifications = [],
     provider_calls =
       [CredlyIssueBadge ''org-1''
          \<lparr>recipient_email = ''alice@example.com'', issued_to_first_name = ''alice'',
           issued_to_last_name = ''alice'', badge_template_id = ''tpl-1'',
           issued_at = ''1970-01-01 00:00:00 +0000''\<rparr>]\<rparr>)"
proof -
  let ?uc = "example_row CredlyBadgeTemplate AWARDED (Some ''created'') None"
  let ?resp = "[''data'' \<mapsto> [''id'' \<mapsto> ''ext-1'', ''state'' \<mapsto> ''accepted'']]
                 :: string \<rightharpoonup> (string \<rightharpoonup> string)"
  have cred: "credential_of example_env ?uc = Some (example_credential CredlyBadgeTemplate)"
    by (simp add: credential_of_def example_env_def example_credential_def example_row_def)
  have answer: "credly_issue_badge example_env (provider_calls (world_with ?uc))
           (organization_uuid (example_credential CredlyBadgeTemplate))
           (credly_badge_data_for example_env
              (get_user_by_username example_env (username ?uc))
              (example_credential CredlyBadgeTemplate)) = Inr ?resp"
    by (simp add: example_env_def)
  have dat: "?resp ''data'' = Some [''id'' \<mapsto> ''ext-1'', ''state'' \<mapsto> ''accepted'']"
    by simp
  from issue_credly_badge_copies_id_and_state [OF cred answer dat]
  show ?thesis
    by (simp add: example_env_def example_credential_def example_row_def example_user_def
        credly_badge_data_for_def world_with_def db_with_def save_def)
qed

text \<open>
  C6. For the Accredible issuer: when the issue call returns a response with a
  "credential" entry, the state of the object becomes the constant "accepted" whatever
  the response holds (the response gives the external id only); when the revoke call
  returns, the state becomes the constant "expired". Both objects are saved.
\<close>

theorem accredible_states_are_fixed:
  "(credential_of e uc = Some grp \<and>
    accredible_issue_badge e (provider_calls w) (api_config_id grp)
      (accredible_badge_data_for e (get_user_by_username e (username uc)) grp uc) = Inr resp \<and>
    resp ''credential'' = Some cr \<longrightarrow>
      issue_accredible_badge e uc w =
        (Inr (uc\<lparr>external_id := cr ''id'', state := Some AccredibleBadge_STATES_accepted\<rparr>),
         w\<lparr>provider_calls := provider_calls w @
              [AccredibleIssueBadge (api_config_id grp)
                 (accredible_badge_data_for e (get_user_by_username e (username uc)) grp uc)],
           store := save (uc\<lparr>external_id := cr ''id'',
                               state := Some AccredibleBadge_STATES_accepted\<rparr>) (store w)\<rparr>) \<and>
      uc\<lparr>external_id := cr ''id'', state := Some AccredibleBadge_STATES_accepted\<rparr> \<in>
        set (user_credentials
               (save (uc\<lparr>external_id := cr ''id'',
                           state := Some AccredibleBadge_STATES_accepted\<rparr>) (store w)))) \<and>
   (get_credential e AccredibleBadgeTemplateIssuer cid = Inr grp \<and>
    accredible_revoke_badge e (provider_calls w) (api_config_id grp) (external_id uc)
      (strftime e (now e)) = Inr () \<longrightarrow>
      revoke_accredible_badge e cid uc w =
        (Inr (uc\<lparr>state := Some AccredibleBadge_STATES_expired\<rparr>),
         w\<lparr>provider_calls := provider_calls w @
              [AccredibleRevokeBadge (api_config_id grp) (external_id uc) (strftime e (now e))],
           store := save (uc\<lparr>state := Some AccredibleBadge_STATES_expired\<rparr>) (store w)\<rparr>) \<and>
      uc\<lparr>state := Some AccredibleBadge_STATES_expired\<rparr> \<in>
        set (user_credentials (save (uc\<lparr>state := Some AccredibleBadge_STATES_expired\<rparr>) (store w))))"
  by (simp add: issue_accredible_badge_def revoke_accredible_badge_def Let_def save_holds_row)


text \<open>
  The example: the issue response \<open>{"credential": {"id": 7}}\<close> carries no state and the row
  becomes "accepted"; a successful revoke call makes a row "expired".
\<close>

theorem accredible_states_are_fixed_witness:
  "issue_accredible_badge example_env
     (example_row AccredibleGroup AWARDED (Some ''created'') None)
     (world_with (example_row AccredibleGroup AWARDED (Some ''created'') None)) =
   (Inr ((example_row AccredibleGroup AWARDED (Some ''accepted'') None)\<lparr>external_id := Some 7\<rparr>),
    \<lparr>store = db_with
       ((example_row AccredibleGroup AWARDED (Some ''accepted'') None)\<lparr>external_id := Some 7\<rparr>),
     notifications = [],
     provider_calls =
       [AccredibleIssueBadge 5
          \<lparr>recipient = \<lparr>recipient_name = ''alice'', recipient_mail = ''alice@example.com''\<rparr>,
           group_id = 1, group_name = ''Badge'',
           issued_on = ''1970-01-01 00:00:00 +0000'', complete = True\<rparr>]\<rparr>) \<and>
   revoke_accredible_badge example_env 1
     (example_row AccredibleGroup REVOKED (Some ''accepted'') None)
     (world_with (example_row AccredibleGroup REVOKED (Some ''accepted'') None)) =
   (Inr (example_row AccredibleGroup REVOKED (Some ''expired'') None),
    \<lparr>store = db_with (example_row AccredibleGroup REVOKED (Some ''expired'') None),
     notifications = [],
     provider_calls = [AccredibleRevokeBadge 5 None ''1970-01-01 00:00:00 +0000'']\<rparr>)"
proof -
  let ?uc = "example_row AccredibleGroup AWARDED (Some ''created'') None"
  let ?uc2 = "example_row AccredibleGroup REVOKED (Some ''accepted'') None"
  let ?grp = "example_credential AccredibleGroup"
  let ?resp = "[''credential'' \<mapsto> [''id'' \<mapsto> 7]] :: string \<rightharpoonup> (string \<rightharpoonup> int)"
  have cred: "credential_of example_env ?uc = Some ?grp"
    by (simp add: credential_of_def example_env_def example_credential_def example_row_def)
  have answer: "accredible_issue_badge example_env (provider_calls (world_with ?uc))
           (api_config_id ?grp)
           (accredible_badge_data_for example_env
              (get_user_by_username example_env (username ?uc)) ?grp ?uc) = Inr ?resp"
    by (simp add: example_env_def)
  have cr: "?resp ''credential'' = Some [''id'' \<mapsto> 7]" by simp
  have got: "get_credential example_env AccredibleBadgeTemplateIssuer 1 = Inr ?grp"
    using get_credential_example [of AccredibleBadgeTemplateIssuer] by simp
  have revoked: "accredible_revoke_badge example_env (provider_calls (world_with ?uc2))
           (api_config_id ?grp) (external_id ?uc2)
           (strftime example_env (now example_env)) = Inr ()"
    by (simp add: example_env_def)
  from accredible_states_are_fixed
         [of example_env ?uc ?grp "world_with ?uc" ?resp "[''id'' \<mapsto> 7]" 1]
       cred answer cr got
  have first: "issue_accredible_badge example_env ?uc (world_with ?uc) =
        (Inr (?uc\<lparr>external_id := [''id'' \<mapsto> 7] ''id'',
                 state := Some AccredibleBadge_STATES_accepted\<rparr>),
         (world_with ?uc)\<lparr>provider_calls := provider_calls (world_with ?uc) @
              [AccredibleIssueBadge (api_config_id ?grp)
                 (accredible_badge_data_for example_env
                    (get_user_by_username example_env (username ?uc)) ?grp ?uc)],
           store := save (?uc\<lparr>external_id := [''id'' \<mapsto> 7] ''id'',
                               state := Some AccredibleBadge_STATES_accepted\<rparr>)
                      (store (world_with ?uc))\<rparr>)"
    by blast
  from accredible_states_are_fixed
         [of example_env ?uc2 ?grp "world_with ?uc2" ?resp "[''id'' \<mapsto> 7]" 1]
       got revoked
  have second: "revoke_accredible_badge example_env 1 ?uc2 (world_with ?uc2) =
        (Inr (?uc2\<lparr>state := Some AccredibleBadge_STATES_expired\<rparr>),
         (world_with ?uc2)\<lparr>provider_calls := provider_calls (world_with ?uc2) @
              [AccredibleRevokeBadge (api_config_id ?grp) (external_id ?uc2)
                 (strftime example_env (now example_env))],
           store := save (?uc2\<lparr>state := Some AccredibleBadge_STATES_expired\<rparr>)
                      (store (world_with ?uc2))\<rparr>)"
    by blast
  show ?thesis
    unfolding first second
    by (simp add: example_env_def example_credential_def example_row_def example_user_def
        accredible_badge_data_for_def world_with_def db_with_def save_def
        AccredibleBadge_STATES_accepted_def AccredibleBadge_STATES_expired_def)
qed


subsection \<open>Provider calls are gated by propagated\<close>

text \<open>
  C4. For the Credly and the Accredible issuer, with \<open>uc\<close> the row the local step returned:
  \<open>award\<close> makes exactly one call, an issue call, when \<open>uc\<close> is not propagated, and no call
  when it is; \<open>revoke\<close> makes exactly one call, a revoke call, when \<open>uc\<close> is propagated, and
  no call when it is not.
\<close>

theorem provider_calls_gated_by_propagated:
  assumes "self = CredlyBadgeTemplateIssuer \<or> self = AccredibleBadgeTemplateIssuer"
  shows "(\<forall>uc w1. BadgeTemplateIssuer_award e self u cid w = (Inr uc, w1) \<longrightarrow>
            (if propagated e uc
             then provider_calls (snd (award e self u cid w)) = provider_calls w
             else \<exists>call. provider_calls (snd (award e self u cid w)) = provider_calls w @ [call] \<and>
                    is_issue_call call)) \<and>
         (\<forall>uc w1. BadgeTemplateIssuer_revoke e self cid u w = (Inr uc, w1) \<longrightarrow>
            (if propagated e uc
             then \<exists>call. provider_calls (snd (revoke e self cid u w)) = provider_calls w @ [call] \<and>
                    is_revoke_call call
             else provider_calls (snd (revoke e self cid u w)) = provider_calls w))"
proof (intro conjI allI impI)
  fix uc w1
  assume base: "BadgeTemplateIssuer_award e self u cid w = (Inr uc, w1)"
  from base_award_resolves [OF base] obtain c where
    c: "credential_of e uc = Some c" and calls: "provider_calls w1 = provider_calls w"
    by blast
  from assms show "if propagated e uc
             then provider_calls (snd (award e self u cid w)) = provider_calls w
             else \<exists>call. provider_calls (snd (award e self u cid w)) = provider_calls w @ [call] \<and>
                    is_issue_call call"
  proof
    assume "self = CredlyBadgeTemplateIssuer"
    then show ?thesis
      using base calls issue_steps_call_once(1) [OF c, of w1]
      by (simp add: CredlyBadgeTemplateIssuer_award_def)
  next
    assume "self = AccredibleBadgeTemplateIssuer"
    then show ?thesis
      using base calls issue_steps_call_once(2) [OF c, of w1]
      by (simp add: AccredibleBadgeTemplateIssuer_award_def)
  qed
next
  fix uc w1
  assume base: "BadgeTemplateIssuer_revoke e self cid u w = (Inr uc, w1)"
  from base_revoke_resolves [OF base] obtain c where
    c: "get_credential e self cid = Inr c" and calls: "provider_calls w1 = provider_calls w"
    by blast
  from assms show "if propagated e uc
             then \<exists>call. provider_calls (snd (revoke e self cid u w)) = provider_calls w @ [call] \<and>
                    is_revoke_call call
             else provider_calls (snd (revoke e self cid u w)) = provider_calls w"
  proof
    assume self: "self = CredlyBadgeTemplateIssuer"
    then show ?thesis
      using base calls revoke_steps_call_once(1) [of e cid c uc w1] c
      by (simp add: CredlyBadgeTemplateIssuer_revoke_def)
  next
    assume self: "self = AccredibleBadgeTemplateIssuer"
    then show ?thesis
      using base calls revoke_steps_call_once(2) [of e cid c uc w1] c
      by (simp add: AccredibleBadgeTemplateIssuer_revoke_def)
  qed
qed


text \<open>
  The example: the first award of "alice" makes one issue call; awarding the accepted,
  propagated row again makes none; revoking that row makes one revoke call; revoking a
  pair without a row makes none.
\<close>

theorem provider_calls_gated_by_propagated_witness:
  "(\<exists>call. provider_calls
       (snd (award example_env CredlyBadgeTemplateIssuer ''alice'' 1 empty_world)) = [call] \<and>
       is_issue_call call) \<and>
   provider_calls
     (snd (award example_env CredlyBadgeTemplateIssuer ''alice'' 1
        (world_with (example_row CredlyBadgeTemplate AWARDED (Some ''accepted'') (Some ''ext-1''))))) = [] \<and>
   (\<exists>call. provider_calls
       (snd (revoke example_env CredlyBadgeTemplateIssuer 1 ''alice''
          (world_with (example_row CredlyBadgeTemplate AWARDED (Some ''accepted'') (Some ''ext-1''))))) =
       [call] \<and> is_revoke_call call) \<and>
   provider_calls
     (snd (revoke example_env CredlyBadgeTemplateIssuer 1 ''alice'' empty_world)) = []"
proof -
  let ?new = "\<lambda>st. \<lparr>pk = 1, username = ''alice'', credential_content_type = CredlyBadgeTemplate,
                 credential_id = 1, status = st, state = Some ''created'',
                 external_uuid = None, external_id = None, created = 0\<rparr>"
  let ?old = "example_row CredlyBadgeTemplate AWARDED (Some ''accepted'') (Some ''ext-1'')"
  have self: "CredlyBadgeTemplateIssuer = CredlyBadgeTemplateIssuer \<or>
              CredlyBadgeTemplateIssuer = AccredibleBadgeTemplateIssuer" by simp
  have a1: "BadgeTemplateIssuer_award example_env CredlyBadgeTemplateIssuer ''alice'' 1 empty_world =
              (Inr (?new AWARDED),
               \<lparr>store = db_with (?new AWARDED), notifications = [BadgeAwarded (?new AWARDED)],
                provider_calls = []\<rparr>)"
    by (simp add: BadgeTemplateIssuer_award_def get_credential_def example_env_def
        example_credential_def issue_credential_def transaction_atomic_def get_or_create_def
        rows_for_def create_def save_def empty_world_def empty_db_def db_with_def Let_def
        CredlyBadge_STATES_revoked_def)
  have a2: "BadgeTemplateIssuer_award example_env CredlyBadgeTemplateIssuer ''alice'' 1 (world_with ?old) =
              (Inr ?old,
               \<lparr>store = db_with ?old, notifications = [BadgeAwarded ?old], provider_calls = []\<rparr>)"
    by (simp add: BadgeTemplateIssuer_award_def get_credential_def example_env_def
        example_credential_def issue_credential_def transaction_atomic_def get_or_create_def
        rows_for_def has_key_def save_def world_with_def db_with_def example_row_def Let_def
        CredlyBadge_STATES_revoked_def)
  have r1: "BadgeTemplateIssuer_revoke example_env CredlyBadgeTemplateIssuer 1 ''alice'' (world_with ?old) =
              (Inr (?old\<lparr>status := REVOKED\<rparr>),
               \<lparr>store = db_with (?old\<lparr>status := REVOKED\<rparr>),
                notifications = [BadgeRevoked (?old\<lparr>status := REVOKED\<rparr>)], provider_calls = []\<rparr>)"
    by (simp add: BadgeTemplateIssuer_revoke_def get_credential_def example_env_def
        example_credential_def issue_credential_def transaction_atomic_def get_or_create_def
        rows_for_def has_key_def save_def world_with_def db_with_def example_row_def Let_def
        CredlyBadge_STATES_revoked_def)
  have r2: "BadgeTemplateIssuer_revoke example_env CredlyBadgeTemplateIssuer 1 ''alice'' empty_world =
              (Inr (?new REVOKED),
               \<lparr>store = db_with (?new REVOKED), notifications = [BadgeRevoked (?new REVOKED)],
                provider_calls = []\<rparr>)"
    by (simp add: BadgeTemplateIssuer_revoke_def get_credential_def example_env_def
        example_credential_def issue_credential_def transaction_atomic_def get_or_create_def
        rows_for_def create_def save_def empty_world_def empty_db_def db_with_def Let_def
        CredlyBadge_STATES_revoked_def)
  have p_new: "\<not> propagated example_env (?new st)" for st by (simp add: example_env_def)
  have p_old: "propagated example_env ?old" "propagated example_env (?old\<lparr>status := REVOKED\<rparr>)"
    by (simp_all add: example_env_def example_row_def)
  note g1 = provider_calls_gated_by_propagated
              [OF self, of example_env "''alice''" 1 empty_world]
  note g2 = provider_calls_gated_by_propagated
              [OF self, of example_env "''alice''" 1 "world_with ?old"]
  have "\<exists>call. provider_calls
       (snd (award example_env CredlyBadgeTemplateIssuer ''alice'' 1 empty_world)) =
         provider_calls empty_world @ [call] \<and> is_issue_call call"
    using g1 a1 p_new [of AWARDED] by (auto split: if_splits)
  moreover have "provider_calls
     (snd (award example_env CredlyBadgeTemplateIssuer ''alice'' 1 (world_with ?old))) =
       provider_calls (world_with ?old)"
    using g2 a2 p_old(1) by (auto split: if_splits)
  moreover have "\<exists>call. provider_calls
       (snd (revoke example_env CredlyBadgeTemplateIssuer 1 ''alice'' (world_with ?old))) =
         provider_calls (world_with ?old) @ [call] \<and> is_revoke_call call"
    using g2 r1 p_old(2) by (auto split: if_splits)
  moreover have "provider_calls
     (snd (revoke example_env CredlyBadgeTemplateIssuer 1 ''alice'' empty_world)) =
       provider_calls empty_world"
    using g1 r2 p_new [of REVOKED] by (auto split: if_splits)
  ultimately show ?thesis by (simp add: empty_world_def world_with_def)
qed


subsection \<open>A provider error during award\<close>

text \<open>
  C3, as stated, has the status stay AWARDED when the provider fails. When the row had
  reached the terminal state the guard has kept its older status: "alice" is awarded the
  Credly definition 1, then revoked (state "revoked", status REVOKED), then awarded again
  while the provider is unavailable. The error reaches the caller and the state becomes
  "error", but the status is REVOKED.
\<close>

theorem award_provider_error_after_revoke_counterexample:
  "fst (award flaky_env CredlyBadgeTemplateIssuer ''alice'' 1
          (snd (revoke flaky_env CredlyBadgeTemplateIssuer 1 ''alice''
             (snd (award flaky_env CredlyBadgeTemplateIssuer ''alice'' 1 empty_world))))) =
     Inl (BadgeProviderError ''unavailable'') \<and>
   map status
     (rows_for ''alice'' CredlyBadgeTemplate 1
        (store (snd (award flaky_env CredlyBadgeTemplateIssuer ''alice'' 1
           (snd (revoke flaky_env CredlyBadgeTemplateIssuer 1 ''alice''
              (snd (award flaky_env CredlyBadgeTemplateIssuer ''alice'' 1 empty_world))))))))
     = [REVOKED] \<and>
   map state
     (rows_for ''alice'' CredlyBadgeTemplate 1
        (store (snd (award flaky_env CredlyBadgeTemplateIssuer ''alice'' 1
           (snd (revoke flaky_env CredlyBadgeTemplateIssuer 1 ''alice''
              (snd (award flaky_env CredlyBadgeTemplateIssuer ''alice'' 1 empty_world))))))))
     = [Some ''error'']"
  by (simp add: run_defs)

text \<open>
  C3, amended. For the Credly and the Accredible issuer: when the local step of \<open>award\<close>
  returned the row \<open>uc\<close>, \<open>uc\<close> is not propagated and the provider's issue call raises
  \<open>BadgeProviderError\<close>, then \<open>award\<close> raises that same error, the row of the pair is \<open>uc\<close>
  with state "error", its status is the status the local step left (AWARDED, unless the
  row was already in the terminal state and the guard kept its status), and the "awarded"
  notification was emitted by the local step, before any provider call, and is the last
  one emitted.
\<close>

theorem provider_error_marks_record:
  assumes "setters_succeed e" and "wf_db (store w)" and "get_credential e self cid = Inr c"
    and "BadgeTemplateIssuer_award e self u cid w = (Inr uc, w1)"
    and "\<not> propagated e uc"
    and "(self = CredlyBadgeTemplateIssuer \<and>
          credly_issue_badge e (provider_calls w) (organization_uuid c)
            (credly_badge_data_for e (get_user_by_username e u) c) =
              Inl (BadgeProviderError m)) \<or>
         (self = AccredibleBadgeTemplateIssuer \<and>
          accredible_issue_badge e (provider_calls w) (api_config_id c)
            (accredible_badge_data_for e (get_user_by_username e u) c uc) =
              Inl (BadgeProviderError m))"
  shows "fst (award e self u cid w) = Inl (BadgeProviderError m) \<and>
         rows_for u (issued_credential_type self) cid (store (snd (award e self u cid w))) =
           [uc\<lparr>state := Some ''error''\<rparr>] \<and>
         status (uc\<lparr>state := Some ''error''\<rparr>) = status uc \<and>
         (status uc = AWARDED \<or>
          (rows_for u (issued_credential_type self) cid (store w) = [uc] \<and>
           state uc = REVOCATION_STATES_get (issued_user_credential_type self))) \<and>
         notifications w1 = notifications w @ [BadgeAwarded uc] \<and>
         provider_calls w1 = provider_calls w \<and>
         notifications (snd (award e self u cid w)) = notifications w @ [BadgeAwarded uc]"
proof -
  let ?ct = "issued_credential_type self"
  let ?err = "uc\<lparr>state := Some ''error''\<rparr>"
  note key = get_credential_key [OF assms(3)]
  from base_award_Inr [OF assms(4)] assms(3)
  have ic: "issue_credential e self c u AWARDED None None (store w) = (Inr uc, store w1)"
    by auto
  from base_award_resolves [OF assms(4)] assms(3)
  have cred: "credential_of e uc = Some c" and uname: "username uc = u"
    and calls: "provider_calls w1 = provider_calls w"
    and sent: "notifications w1 = notifications w @ [BadgeAwarded uc]"
    by auto
  note post = issue_credential_post [OF assms(1,2) ic]
  have wf1: "wf_db (store w1)" and rows1: "rows_for u ?ct cid (store w1) = [uc]"
    using post(1,2) key by simp_all
  have st: "status uc = AWARDED \<or>
          (rows_for u ?ct cid (store w) = [uc] \<and>
           state uc = REVOCATION_STATES_get (issued_user_credential_type self))"
    using post(3) key by auto
  have sr: "same_record uc ?err" by simp
  note kept = save_single_row [OF wf1 rows1 sr]
  have run: "award e self u cid w =
               (Inl (BadgeProviderError m),
                snd (award e self u cid w)) \<and>
             store (snd (award e self u cid w)) = save ?err (store w1) \<and>
             notifications (snd (award e self u cid w)) = notifications w1"
    using assms(6)
  proof
    assume "self = CredlyBadgeTemplateIssuer \<and>
          credly_issue_badge e (provider_calls w) (organization_uuid c)
            (credly_badge_data_for e (get_user_by_username e u) c) =
              Inl (BadgeProviderError m)"
    then show ?thesis
      using assms(4,5) cred uname calls
      by (simp add: CredlyBadgeTemplateIssuer_award_def issue_credly_badge_def Let_def)
  next
    assume "self = AccredibleBadgeTemplateIssuer \<and>
          accredible_issue_badge e (provider_calls w) (api_config_id c)
            (accredible_badge_data_for e (get_user_by_username e u) c uc) =
              Inl (BadgeProviderError m)"
    then show ?thesis
      using assms(4,5) cred uname calls
      by (simp add: AccredibleBadgeTemplateIssuer_award_def issue_accredible_badge_def Let_def)
  qed
  have "fst (award e self u cid w) = Inl (BadgeProviderError m)"
    using run by (metis fst_conv)
  moreover have "rows_for u ?ct cid (store (snd (award e self u cid w))) = [?err]"
    using run kept(2) by simp
  moreover have "notifications (snd (award e self u cid w)) = notifications w @ [BadgeAwarded uc]"
    using run sent by simp
  ultimately show ?thesis using st sent calls by simp
qed


text \<open>
  The example of the specification: the Accredible provider is unavailable when "alice"
  is awarded group 1 for the first time; the caller receives the error and the new row is
  AWARDED with state "error".
\<close>

theorem provider_error_marks_record_witness:
  "fst (award (example_env\<lparr>accredible_issue_badge :=
                 (\<lambda>calls cfg dat. Inl (BadgeProviderError ''unavailable''))\<rparr>)
          AccredibleBadgeTemplateIssuer ''alice'' 1 empty_world) =
     Inl (BadgeProviderError ''unavailable'') \<and>
   rows_for ''alice'' AccredibleGroup 1
     (store (snd (award (example_env\<lparr>accredible_issue_badge :=
                 (\<lambda>calls cfg dat. Inl (BadgeProviderError ''unavailable''))\<rparr>)
          AccredibleBadgeTemplateIssuer ''alice'' 1 empty_world))) =
     [\<lparr>pk = 1, username = ''alice'', credential_content_type = AccredibleGroup,
       credential_id = 1, status = AWARDED, state = Some ''error'',
       external_uuid = None, external_id = None, created = 0\<rparr>] \<and>
   notifications
     (snd (award (example_env\<lparr>accredible_issue_badge :=
                 (\<lambda>calls cfg dat. Inl (BadgeProviderError ''unavailable''))\<rparr>)
          AccredibleBadgeTemplateIssuer ''alice'' 1 empty_world)) =
     [BadgeAwarded \<lparr>pk = 1, username = ''alice'', credential_content_type = AccredibleGroup,
       credential_id = 1, status = AWARDED, state = Some ''created'',
       external_uuid = None, external_id = None, created = 0\<rparr>]"
proof -
  let ?e = "example_env\<lparr>accredible_issue_badge :=
                 (\<lambda>calls cfg dat. Inl (BadgeProviderError ''unavailable''))\<rparr>"
  let ?uc = "\<lparr>pk = 1, username = ''alice'', credential_content_type = AccredibleGroup,
       credential_id = 1, status = AWARDED, state = Some ''created'',
       external_uuid = None, external_id = None, created = 0\<rparr>"
  let ?w1 = "\<lparr>store = db_with ?uc, notifications = [BadgeAwarded ?uc], provider_calls = []\<rparr>"
  have ok: "setters_succeed ?e" by (simp add: setters_succeed_def example_env_def)
  have wf: "wf_db (store empty_world)" by (simp add: empty_world_def wf_db_empty)
  have cred: "get_credential ?e AccredibleBadgeTemplateIssuer 1 =
                Inr (example_credential AccredibleGroup)"
    by (simp add: get_credential_def example_env_def example_credential_def)
  have base: "BadgeTemplateIssuer_award ?e AccredibleBadgeTemplateIssuer ''alice'' 1 empty_world =
                (Inr ?uc, ?w1)"
    by (simp add: BadgeTemplateIssuer_award_def get_credential_def example_env_def
        example_credential_def issue_credential_def transaction_atomic_def get_or_create_def
        rows_for_def create_def save_def empty_world_def empty_db_def db_with_def Let_def
        AccredibleBadge_STATES_expired_def)
  have fresh: "\<not> propagated ?e ?uc" by (simp add: example_env_def)
  have down: "(AccredibleBadgeTemplateIssuer = CredlyBadgeTemplateIssuer \<and>
          credly_issue_badge ?e (provider_calls empty_world)
            (organization_uuid (example_credential AccredibleGroup))
            (credly_badge_data_for ?e (get_user_by_username ?e ''alice'')
               (example_credential AccredibleGroup)) =
              Inl (BadgeProviderError ''unavailable'')) \<or>
         (AccredibleBadgeTemplateIssuer = AccredibleBadgeTemplateIssuer \<and>
          accredible_issue_badge ?e (provider_calls empty_world)
            (api_config_id (example_credential AccredibleGroup))
            (accredible_badge_data_for ?e (get_user_by_username ?e ''alice'')
               (example_credential AccredibleGroup) ?uc) =
              Inl (BadgeProviderError ''unavailable''))"
    by (simp add: example_env_def)
  from provider_error_marks_record [OF ok wf cred base fresh down]
  show ?thesis by (simp add: empty_world_def)
qed


end
